theory Spec2Isabelle
  imports
    Complex_Main
    "HOL-Library.Multiset"
    "HOL-Library.Char_ord"
    "HOL-Library.List_Lexorder"
    "HOL-Library.Product_Lexorder"
begin

section \<open>Numbers and frames\<close>

subsection \<open>The float64 interface\<close>

text \<open>
  Every numeric column of \<^verbatim>\<open>run.py\<close> is a numpy float64. The program only multiplies,
  divides, subtracts and sums such values and lets pandas test them for NaN. These
  operations belong to numpy, not to the repository, so the functions below take them as
  a parameter \<open>ops\<close>; a theorem stated for every \<open>ops\<close> holds for IEEE-754 binary64 with
  its rounding in particular.

  \<^item> \<open>fmul\<close>, \<open>fdiv\<close>, \<open>fsub\<close>: \<^verbatim>\<open>*\<close>, \<^verbatim>\<open>/\<close>, \<^verbatim>\<open>-\<close> on float64, the same operation whether
    numpy applies it to two columns element by element or to two scalars (the division
    of line 136 has a numpy scalar as divisor, so a zero divisor gives an infinity or
    NaN, not \<^verbatim>\<open>ZeroDivisionError\<close>);
  \<^item> \<open>fsum\<close>: numpy's reduction of an array without NaN (its summation order is numpy's);
  \<^item> \<open>isnan\<close>, \<open>isfinite\<close>: the classification of a value;
  \<^item> \<open>fnan\<close>: the NaN pandas fills a missing cell with; \<open>fzero\<close>: \<^verbatim>\<open>0.0\<close>.
\<close>

record 'f float_ops =
  fmul :: "'f \<Rightarrow> 'f \<Rightarrow> 'f"
  fdiv :: "'f \<Rightarrow> 'f \<Rightarrow> 'f"
  fsub :: "'f \<Rightarrow> 'f \<Rightarrow> 'f"
  fsum :: "'f list \<Rightarrow> 'f"
  isnan :: "'f \<Rightarrow> bool"
  isfinite :: "'f \<Rightarrow> bool"
  fnan :: "'f"
  fzero :: "'f"

text \<open>
  \<^verbatim>\<open>Series.sum()\<close> with its default \<^verbatim>\<open>skipna=True\<close>: pandas replaces every NaN of the
  column by \<^verbatim>\<open>0.0\<close> and hands the array to numpy's sum; an empty column sums to \<^verbatim>\<open>0.0\<close>
  through the same reduction.
\<close>

definition series_sum :: "'f float_ops \<Rightarrow> 'f list \<Rightarrow> 'f" where
  "series_sum ops col = fsum ops (map (\<lambda>v. if isnan ops v then fzero ops else v) col)"

subsection \<open>A reference instance of the interface\<close>

text \<open>
  Concrete inputs are evaluated on the extended rationals: finite values are exact
  rationals, with the two infinities and NaN beside them and the IEEE-754 rules for the
  special values (signed zeros are not told apart). On operands whose exact result is a
  binary64 number, such as the small integers of the scenarios below, these operations
  return what numpy returns.
\<close>

datatype xnum = Fin rat | PInf | NInf | NaN

fun xneg :: "xnum \<Rightarrow> xnum" where
  "xneg (Fin a) = Fin (- a)"
| "xneg PInf = NInf"
| "xneg NInf = PInf"
| "xneg NaN = NaN"

fun xadd :: "xnum \<Rightarrow> xnum \<Rightarrow> xnum" where
  "xadd NaN _ = NaN"
| "xadd _ NaN = NaN"
| "xadd (Fin a) (Fin b) = Fin (a + b)"
| "xadd (Fin a) PInf = PInf"
| "xadd (Fin a) NInf = NInf"
| "xadd PInf (Fin b) = PInf"
| "xadd NInf (Fin b) = NInf"
| "xadd PInf PInf = PInf"
| "xadd NInf NInf = NInf"
| "xadd PInf NInf = NaN"
| "xadd NInf PInf = NaN"

definition xsub :: "xnum \<Rightarrow> xnum \<Rightarrow> xnum" where
  "xsub a b = xadd a (xneg b)"

definition xsigned :: "bool \<Rightarrow> xnum" where
  "xsigned negative = (if negative then NInf else PInf)"

fun xmul :: "xnum \<Rightarrow> xnum \<Rightarrow> xnum" where
  "xmul NaN _ = NaN"
| "xmul _ NaN = NaN"
| "xmul (Fin a) (Fin b) = Fin (a * b)"
| "xmul (Fin a) PInf = (if a = 0 then NaN else xsigned (a < 0))"
| "xmul (Fin a) NInf = (if a = 0 then NaN else xsigned (0 < a))"
| "xmul PInf (Fin b) = (if b = 0 then NaN else xsigned (b < 0))"
| "xmul NInf (Fin b) = (if b = 0 then NaN else xsigned (0 < b))"
| "xmul PInf PInf = PInf"
| "xmul NInf NInf = PInf"
| "xmul PInf NInf = NInf"
| "xmul NInf PInf = NInf"

fun xdiv :: "xnum \<Rightarrow> xnum \<Rightarrow> xnum" where
  "xdiv NaN _ = NaN"
| "xdiv _ NaN = NaN"
| "xdiv (Fin a) (Fin b) =
     (if b = 0 then (if a = 0 then NaN else xsigned (a < 0)) else Fin (a / b))"
| "xdiv (Fin a) PInf = Fin 0"
| "xdiv (Fin a) NInf = Fin 0"
| "xdiv PInf (Fin b) = xsigned (b < 0)"
| "xdiv NInf (Fin b) = xsigned (0 \<le> b)"
| "xdiv PInf PInf = NaN"
| "xdiv NInf NInf = NaN"
| "xdiv PInf NInf = NaN"
| "xdiv NInf PInf = NaN"

definition xops :: "xnum float_ops" where
  "xops = \<lparr> fmul = xmul, fdiv = xdiv, fsub = xsub,
            fsum = (\<lambda>vs. foldl xadd (Fin 0) vs),
            isnan = (\<lambda>v. v = NaN),
            isfinite = (\<lambda>v. case v of Fin _ \<Rightarrow> True | _ \<Rightarrow> False),
            fnan = NaN, fzero = Fin 0 \<rparr>"

subsection \<open>Frames\<close>

text \<open>
  A DataFrame is the list of its rows, in positional order. Dates are any linearly
  ordered type (pandas compares \<^verbatim>\<open>datetime64\<close> values); the scenarios use
  (year, month, day) triples in lexicographic order.

  The ledger frame that \<^verbatim>\<open>read_transactions\<close> returns has no missing date, units or
  amount (line 44 drops such rows), so these columns carry plain values.
\<close>

record ('d, 'f) txn =
  transaction_date :: "'d"  \<comment> \<open>column \<^verbatim>\<open>Transaction Date\<close>\<close>
  scheme :: "string"         \<comment> \<open>column \<^verbatim>\<open>Scheme\<close>\<close>
  units :: "'f"              \<comment> \<open>column \<^verbatim>\<open>Units\<close>\<close>
  gross_amount :: "'f"       \<comment> \<open>column \<^verbatim>\<open>Gross Amount\<close>\<close>

record ('d, 'f) nav_row =
  date :: "'d"   \<comment> \<open>column \<^verbatim>\<open>date\<close>\<close>
  nav :: "'f"    \<comment> \<open>column \<^verbatim>\<open>nav\<close>\<close>

text \<open>
  The frame \<^verbatim>\<open>merge_asof\<close> returns: the ledger columns followed by the price columns of
  the matched row. An unmatched row holds NaT in \<^verbatim>\<open>date\<close> (here \<open>None\<close>) and NaN in
  \<^verbatim>\<open>nav\<close>.
\<close>

record ('d, 'f) joined = "('d, 'f) txn" +
  matched_date :: "'d option"  \<comment> \<open>column \<^verbatim>\<open>date\<close> of the merged frame\<close>
  matched_nav :: "'f"          \<comment> \<open>column \<^verbatim>\<open>nav\<close> of the merged frame\<close>

text \<open>
  The frame \<^verbatim>\<open>calculate_portfolio_value\<close> returns. The last three columns exist only
  when \<^verbatim>\<open>is_potential\<close> is set; \<open>None\<close> stands for an absent column.
\<close>

record ('d, 'f) valued = "('d, 'f) joined" +
  current_nav :: "'f"                \<comment> \<open>column \<^verbatim>\<open>Current NAV\<close>\<close>
  current_value :: "'f"              \<comment> \<open>column \<^verbatim>\<open>Current Value\<close>\<close>
  original_units :: "'f option"      \<comment> \<open>column \<^verbatim>\<open>Original Units\<close>\<close>
  units_difference :: "'f option"    \<comment> \<open>column \<^verbatim>\<open>Units Difference\<close>\<close>
  value_difference :: "'f option"    \<comment> \<open>column \<^verbatim>\<open>Value Difference\<close>\<close>

definition ledger_columns :: "('d, 'f, 'z) txn_scheme \<Rightarrow> ('d, 'f) txn" where
  "ledger_columns r =
     \<lparr> transaction_date = transaction_date r, scheme = scheme r,
       units = units r, gross_amount = gross_amount r \<rparr>"

subsection \<open>pandas operations\<close>

text \<open>
  \<^verbatim>\<open>DataFrame.sort_values(key)\<close> is \<open>sort_key\<close>, which keeps rows of equal key in their
  input order. (numpy's default sort does so for short arrays and promises nothing for
  long ones; no theorem below depends on the order among rows of equal key except where
  it says so.)

  \<^verbatim>\<open>pd.merge_asof(left, right, left_on, right_on, direction='forward')\<close> on two sorted
  frames is a left join: every left row stays, in order, and is given the columns of the
  first right row whose key is not before the left key, or missing values when there is
  none.
\<close>

definition asof_forward ::
  "'d::linorder \<Rightarrow> ('d, 'f) nav_row list \<Rightarrow> ('d, 'f) nav_row option" where
  "asof_forward d right = List.find (\<lambda>p. d \<le> date p) right"

definition join_row ::
  "'f float_ops \<Rightarrow> ('d::linorder, 'f) nav_row list \<Rightarrow> ('d, 'f) txn \<Rightarrow> ('d, 'f) joined" where
  "join_row ops right t =
     (case asof_forward (transaction_date t) right of
        None \<Rightarrow>
          \<lparr> transaction_date = transaction_date t, scheme = scheme t,
            units = units t, gross_amount = gross_amount t,
            matched_date = None, matched_nav = fnan ops \<rparr>
      | Some p \<Rightarrow>
          \<lparr> transaction_date = transaction_date t, scheme = scheme t,
            units = units t, gross_amount = gross_amount t,
            matched_date = Some (date p), matched_nav = nav p \<rparr>)"

definition merge_asof_forward ::
  "'f float_ops \<Rightarrow> ('d::linorder, 'f) txn list \<Rightarrow> ('d, 'f) nav_row list
     \<Rightarrow> ('d, 'f) joined list" where
  "merge_asof_forward ops left right = map (join_row ops right) left"

section \<open>The valuation engine\<close>

text \<open>
  Lines 90 and 91: the two columns every row receives. Lines 94 to 96: the three columns
  of the counterfactual run.
\<close>

definition value_row :: "'f float_ops \<Rightarrow> 'f \<Rightarrow> ('d, 'f) joined \<Rightarrow> ('d, 'f) valued" where
  "value_row ops cur m =
     \<lparr> transaction_date = transaction_date m, scheme = scheme m,
       units = units m, gross_amount = gross_amount m,
       matched_date = matched_date m, matched_nav = matched_nav m,
       current_nav = cur, current_value = fmul ops (units m) cur,
       original_units = None, units_difference = None, value_difference = None \<rparr>"

definition potential_columns :: "'f float_ops \<Rightarrow> ('d, 'f) valued \<Rightarrow> ('d, 'f) valued" where
  "potential_columns ops r =
     (let ou = fdiv ops (gross_amount r) (matched_nav r)
      in r \<lparr> original_units := Some ou,
             units_difference := Some (fsub ops (units r) ou),
             value_difference := Some (fsub ops (current_value r) (gross_amount r)) \<rparr>)"

text \<open>
  \<^verbatim>\<open>calculate_portfolio_value(transactions, nav_data, is_potential)\<close>, lines 73 to 100.
  The integer \<^verbatim>\<open>0\<close> of the two early returns is written \<open>fzero\<close>, and the empty
  \<^verbatim>\<open>pd.DataFrame()\<close> is the empty list. \<^verbatim>\<open>nav_data.iloc[-1]\<close> reads the last row of the
  frame as it was passed in, not of the sorted copy made for the merge.
\<close>

definition calculate_portfolio_value ::
  "'f float_ops \<Rightarrow> ('d::linorder, 'f) txn list \<Rightarrow> ('d, 'f) nav_row list \<Rightarrow> bool
     \<Rightarrow> 'f \<times> ('d, 'f) valued list" where
  "calculate_portfolio_value ops transactions nav_data is_potential =
     (if transactions = [] \<or> nav_data = [] then (fzero ops, [])
      else
        let merged = merge_asof_forward ops
                       (sort_key transaction_date transactions)
                       (sort_key date nav_data)
        in if merged = [] then (fzero ops, [])
           else
             let cur = nav (last nav_data);
                 valued = map (value_row ops cur) merged;
                 rows = (if is_potential then map (potential_columns ops) valued
                         else valued);
                 total_value = series_sum ops (map current_value rows)
             in (total_value, rows))"

section \<open>The fuzzy name matcher\<close>

subsection \<open>String preparation of fuzzywuzzy\<close>

text \<open>
  \<^verbatim>\<open>fuzzy_match_scheme\<close> calls \<^verbatim>\<open>process.extractOne\<close> with the scorer
  \<^verbatim>\<open>fuzz.token_sort_ratio\<close> of the fuzzywuzzy package (0.18). The package is not part of
  the repository; its string preparation is written out below after its published source
  (\<^verbatim>\<open>utils.full_process\<close>, \<^verbatim>\<open>fuzz._process_and_sort\<close>, \<^verbatim>\<open>fuzz.ratio\<close>,
  \<^verbatim>\<open>process.extractWithoutOrder\<close>), on strings of code points below 256. The similarity of
  two prepared strings, \<^verbatim>\<open>intr(100 * SequenceMatcher(None, s1, s2).ratio())\<close>, depends on
  the matcher that is installed and is the parameter \<open>raw\<close>.
\<close>

definition code :: "char \<Rightarrow> nat" where
  "code c = of_char c"

text \<open>\<^verbatim>\<open>utils.asciidammit\<close>: delete the code points 128 to 255.\<close>

definition asciidammit :: "string \<Rightarrow> string" where
  "asciidammit s = filter (\<lambda>c. code c < 128) s"

text \<open>
  The characters the pattern \<^verbatim>\<open>(?ui)\W\<close> leaves alone: letters, digits and other numeric
  characters, and the underscore.
\<close>

definition is_word :: "char \<Rightarrow> bool" where
  "is_word c =
     (let n = code c
      in (48 \<le> n \<and> n \<le> 57) \<or> (65 \<le> n \<and> n \<le> 90) \<or> (97 \<le> n \<and> n \<le> 122) \<or> n = 95
         \<or> n \<in> {170, 178, 179, 181, 185, 186, 188, 189, 190}
         \<or> (192 \<le> n \<and> n \<noteq> 215 \<and> n \<noteq> 247))"

definition replace_non_letters_non_numbers_with_whitespace :: "string \<Rightarrow> string" where
  "replace_non_letters_non_numbers_with_whitespace s =
     map (\<lambda>c. if is_word c then c else CHR '' '') s"

definition lower_char :: "char \<Rightarrow> char" where
  "lower_char c =
     (let n = code c
      in if (65 \<le> n \<and> n \<le> 90) \<or> (192 \<le> n \<and> n \<le> 222 \<and> n \<noteq> 215)
         then char_of (n + 32) else c)"

definition to_lower_case :: "string \<Rightarrow> string" where
  "to_lower_case s = map lower_char s"

text \<open>What \<^verbatim>\<open>str.strip()\<close> and \<^verbatim>\<open>str.split()\<close> take for white space.\<close>

definition is_space :: "char \<Rightarrow> bool" where
  "is_space c =
     (let n = code c in (9 \<le> n \<and> n \<le> 13) \<or> (28 \<le> n \<and> n \<le> 32) \<or> n = 133 \<or> n = 160)"

definition strip :: "string \<Rightarrow> string" where
  "strip s = rev (dropWhile is_space (rev (dropWhile is_space s)))"

definition full_process :: "bool \<Rightarrow> string \<Rightarrow> string" where
  "full_process force_ascii s =
     strip (to_lower_case (replace_non_letters_non_numbers_with_whitespace
       (if force_ascii then asciidammit s else s)))"

text \<open>\<^verbatim>\<open>str.split()\<close>: the maximal runs of characters that are not white space.\<close>

function split :: "string \<Rightarrow> string list" where
  "split [] = []"
| "split (c # cs) =
     (if is_space c then split cs
      else (c # takeWhile (\<lambda>x. \<not> is_space x) cs) # split (dropWhile (\<lambda>x. \<not> is_space x) cs))"
  by pat_completeness auto
termination
  by (relation "measure length") (auto simp: length_dropWhile_le less_Suc_eq_le)

text \<open>\<^verbatim>\<open>" ".join(tokens)\<close>\<close>

fun join :: "string list \<Rightarrow> string" where
  "join [] = []"
| "join [w] = w"
| "join (w # ws) = w @ CHR '' '' # join ws"

text \<open>
  \<^verbatim>\<open>fuzz._process_and_sort(s, force_ascii, full_process)\<close>; Python sorts strings by code
  point, which is the lexicographic order on character lists.
\<close>

definition process_and_sort :: "string \<Rightarrow> bool \<Rightarrow> bool \<Rightarrow> string" where
  "process_and_sort s force_ascii fp =
     (let ts = (if fp then full_process force_ascii s else s);
          tokens = split ts
      in strip (join (sort tokens)))"

text \<open>
  \<^verbatim>\<open>fuzz.ratio\<close> under its decorators: equal strings score 100 before anything else is
  looked at, then an empty string scores 0.
\<close>

definition ratio :: "(string \<Rightarrow> string \<Rightarrow> int) \<Rightarrow> string \<Rightarrow> string \<Rightarrow> int" where
  "ratio raw s1 s2 =
     (if s1 = s2 then 100 else if s1 = [] \<or> s2 = [] then 0 else raw s1 s2)"

text \<open>\<^verbatim>\<open>fuzz.token_sort_ratio(s1, s2, force_ascii=True, full_process=...)\<close>\<close>

definition token_sort_ratio ::
  "(string \<Rightarrow> string \<Rightarrow> int) \<Rightarrow> string \<Rightarrow> string \<Rightarrow> bool \<Rightarrow> int" where
  "token_sort_ratio raw s1 s2 fp =
     ratio raw (process_and_sort s1 True fp) (process_and_sort s2 True fp)"

text \<open>
  \<^verbatim>\<open>process.extractOne(query, choices, scorer=fuzz.token_sort_ratio)\<close> with the default
  processor and \<^verbatim>\<open>score_cutoff=0\<close>. The query passes the default processor
  (\<^verbatim>\<open>full_process\<close> without \<^verbatim>\<open>force_ascii\<close>) and then the scorer's own preparation; a
  choice passes the latter only; the scorer is then called with \<^verbatim>\<open>full_process=False\<close>.
  \<^verbatim>\<open>max\<close> returns the first pair of greatest score, and no pair gives \<open>None\<close>.
\<close>

definition choice_score :: "(string \<Rightarrow> string \<Rightarrow> int) \<Rightarrow> string \<Rightarrow> string \<Rightarrow> int" where
  "choice_score raw query choice =
     token_sort_ratio raw (full_process True (full_process False query))
       (full_process True choice) False"

fun first_max :: "('a \<times> int) list \<Rightarrow> ('a \<times> int) option" where
  "first_max [] = None"
| "first_max (x # xs) =
     (case first_max xs of
        None \<Rightarrow> Some x
      | Some y \<Rightarrow> if snd x < snd y then Some y else Some x)"

definition extractOne ::
  "(string \<Rightarrow> string \<Rightarrow> int) \<Rightarrow> string \<Rightarrow> string list \<Rightarrow> (string \<times> int) option" where
  "extractOne raw query choices =
     first_max (filter (\<lambda>(c, score). 0 \<le> score)
                  (map (\<lambda>c. (c, choice_score raw query c)) choices))"

subsection \<open>\<^verbatim>\<open>fuzzy_match_scheme\<close>\<close>

text \<open>Lines 102 to 106; the source's default threshold is 70.\<close>

definition fuzzy_match_scheme ::
  "(string \<Rightarrow> string \<Rightarrow> int) \<Rightarrow> string \<Rightarrow> string list \<Rightarrow> int \<Rightarrow> string option" where
  "fuzzy_match_scheme raw scheme_name transactions_schemes threshold =
     (case extractOne raw scheme_name transactions_schemes of
        None \<Rightarrow> None
      | Some best_match \<Rightarrow>
          if threshold \<le> snd best_match then Some (fst best_match) else None)"

section \<open>The comparison\<close>

text \<open>
  Python exceptions that escape the modelled functions. Neither is caught anywhere in
  \<^verbatim>\<open>run.py\<close>.
\<close>

datatype py_error = KeyError | IndexError

text \<open>
  \<^verbatim>\<open>fetch_nav_data\<close>, lines 54 to 71. The HTTP exchange is the parameter: \<open>None\<close> when
  \<^verbatim>\<open>requests\<close> raised, otherwise the decoded points of \<^verbatim>\<open>data['data']\<close> and the
  \<^verbatim>\<open>scheme_name\<close> of \<^verbatim>\<open>data['meta']\<close>. Only \<^verbatim>\<open>RequestException\<close> is caught: a response
  without points makes a frame without columns, and \<^verbatim>\<open>nav_data['date']\<close> raises KeyError.
  The result \<open>Inr None\<close> is the source's \<^verbatim>\<open>(None, None)\<close>.
\<close>

type_synonym ('d, 'f) response = "(('d, 'f) nav_row list \<times> string) option"

definition fetch_nav_data ::
  "('d::linorder, 'f) response \<Rightarrow> py_error + (('d, 'f) nav_row list \<times> string) option" where
  "fetch_nav_data resp =
     (case resp of
        None \<Rightarrow> Inr None
      | Some (points, scheme_name) \<Rightarrow>
          if points = [] then Inl KeyError
          else Inr (Some (sort_key date points, scheme_name)))"

text \<open>\<^verbatim>\<open>Series.unique()\<close>: the distinct values in order of first appearance.\<close>

fun unique :: "'a list \<Rightarrow> 'a list" where
  "unique [] = []"
| "unique (x # xs) = x # filter (\<lambda>y. y \<noteq> x) (unique xs)"

text \<open>
  The lambda of lines 135 to 138 on one row. \<^verbatim>\<open>potential_navs.loc[d:]\<close> slices the
  date-sorted index from the first label not before \<open>d\<close>, and \<^verbatim>\<open>.iloc[0]\<close> raises
  IndexError on an empty slice.
\<close>

definition potential_units ::
  "'f float_ops \<Rightarrow> ('d::linorder, 'f) nav_row list \<Rightarrow> ('d, 'f) txn \<Rightarrow> py_error + 'f" where
  "potential_units ops potential_navs row =
     (case dropWhile (\<lambda>p. date p < transaction_date row) potential_navs of
        [] \<Rightarrow> Inl IndexError
      | p # _ \<Rightarrow> Inr (fdiv ops (gross_amount row) (nav p)))"

text \<open>
  \<^verbatim>\<open>DataFrame.apply(f, axis=1)\<close> followed by the assignment to the \<^verbatim>\<open>Units\<close> column:
  rows are visited in order and the first exception ends the run.
\<close>

fun assign_units ::
  "(('d, 'f) txn \<Rightarrow> py_error + 'f) \<Rightarrow> ('d, 'f) txn list \<Rightarrow> py_error + ('d, 'f) txn list" where
  "assign_units f [] = Inr []"
| "assign_units f (row # rows) =
     (case f row of
        Inl e \<Rightarrow> Inl e
      | Inr u \<Rightarrow>
          (case assign_units f rows of
             Inl e \<Rightarrow> Inl e
           | Inr rows' \<Rightarrow> Inr (row \<lparr> units := u \<rparr> # rows')))"

record 'f comparison =
  input_api :: "string"          \<comment> \<open>\<^verbatim>\<open>Input Stock/MF (API)\<close>\<close>
  input_matched :: "string"      \<comment> \<open>\<^verbatim>\<open>Input Stock/MF (Matched)\<close>\<close>
  potential_name :: "string"     \<comment> \<open>\<^verbatim>\<open>Potential Stock/MF\<close>\<close>
  input_value :: "'f"            \<comment> \<open>\<^verbatim>\<open>Input Portfolio Value\<close>\<close>
  potential_value :: "'f"        \<comment> \<open>\<^verbatim>\<open>Potential Portfolio Value\<close>\<close>
  difference :: "'f"             \<comment> \<open>\<^verbatim>\<open>Difference\<close>\<close>

type_synonym ('d, 'f) compared =
  "'f comparison \<times> ('d, 'f) valued list \<times> ('d, 'f) valued list"

text \<open>
  The part of \<^verbatim>\<open>compare_portfolios\<close> after the scheme has been matched, lines 125 to
  150, on the two fetched series.
\<close>

definition compare_matched ::
  "'f float_ops \<Rightarrow> ('d::linorder, 'f) txn list \<Rightarrow> string
     \<Rightarrow> ('d, 'f) nav_row list \<Rightarrow> string \<Rightarrow> ('d, 'f) nav_row list \<Rightarrow> string
     \<Rightarrow> py_error + ('d, 'f) compared option" where
  "compare_matched ops transactions matched_scheme
       my_nav_data my_scheme_name potential_nav_data potential_scheme_name =
     (let input_transactions = filter (\<lambda>t. scheme t = matched_scheme) transactions
      in if input_transactions = [] then Inr None
         else
           let (my_portfolio_value, my_detailed_calc) =
                 calculate_portfolio_value ops input_transactions my_nav_data False
           in case assign_units (potential_units ops potential_nav_data) input_transactions of
                Inl e \<Rightarrow> Inl e
              | Inr transactions_potential \<Rightarrow>
                  let (potential_portfolio_value, potential_detailed_calc) =
                        calculate_portfolio_value ops transactions_potential
                          potential_nav_data True
                  in Inr (Some
                       (\<lparr> input_api = my_scheme_name,
                          input_matched = matched_scheme,
                          potential_name = potential_scheme_name,
                          input_value = my_portfolio_value,
                          potential_value = potential_portfolio_value,
                          difference = fsub ops potential_portfolio_value my_portfolio_value \<rparr>,
                        my_detailed_calc, potential_detailed_calc)))"

text \<open>
  \<^verbatim>\<open>compare_portfolios(transactions, my_stock_api, potential_stock_api)\<close>, lines 108 to
  150, with the two HTTP exchanges as parameters. \<open>Inr None\<close> is the source's
  \<^verbatim>\<open>(None, None, None)\<close>; \<open>Inl e\<close> is an exception leaving the function.
\<close>

definition compare_portfolios ::
  "'f float_ops \<Rightarrow> (string \<Rightarrow> string \<Rightarrow> int) \<Rightarrow> ('d::linorder, 'f) txn list
     \<Rightarrow> ('d, 'f) response \<Rightarrow> ('d, 'f) response \<Rightarrow> py_error + ('d, 'f) compared option" where
  "compare_portfolios ops raw transactions my_stock_api potential_stock_api =
     (case fetch_nav_data my_stock_api of
        Inl e \<Rightarrow> Inl e
      | Inr my \<Rightarrow>
          (case fetch_nav_data potential_stock_api of
             Inl e \<Rightarrow> Inl e
           | Inr potential \<Rightarrow>
               (case (my, potential) of
                  (Some (my_nav_data, my_scheme_name),
                   Some (potential_nav_data, potential_scheme_name)) \<Rightarrow>
                    let unique_schemes = unique (map scheme transactions)
                    in (case fuzzy_match_scheme raw my_scheme_name unique_schemes 70 of
                          None \<Rightarrow> Inr None
                        | Some matched_scheme \<Rightarrow>
                            compare_matched ops transactions matched_scheme
                              my_nav_data my_scheme_name
                              potential_nav_data potential_scheme_name)
                | _ \<Rightarrow> Inr None)))"

section \<open>The comparison on shared frames\<close>

text \<open>
  Python hands \<^verbatim>\<open>compare_portfolios\<close> a reference to the caller's ledger frame, and a
  second call receives the same object. To see what a call leaves behind, the ledger
  frames live in a store, addressed by position, and the function returns the store
  with its result:
  \<^item> \<^verbatim>\<open>transactions[mask]\<close> (line 125) and \<^verbatim>\<open>input_transactions.copy()\<close> (line 133) each
    make a new frame;
  \<^item> the assignment to \<^verbatim>\<open>transactions_potential['Units']\<close> (line 135) overwrites the
    frame it is applied to;
  \<^item> \<^verbatim>\<open>calculate_portfolio_value\<close> only reads its arguments (\<^verbatim>\<open>sort_values\<close> and
    \<^verbatim>\<open>merge_asof\<close> return new frames, and the column assignments of lines 90 to 96 go
    to the merged frame), and the price frames are fetched anew by every call.
\<close>

type_synonym ('d, 'f) store = "('d, 'f) txn list list"

definition new_frame :: "('d, 'f) store \<Rightarrow> ('d, 'f) txn list \<Rightarrow> nat \<times> ('d, 'f) store" where
  "new_frame st rows = (length st, st @ [rows])"

definition compare_portfolios_store ::
  "'f float_ops \<Rightarrow> (string \<Rightarrow> string \<Rightarrow> int) \<Rightarrow> ('d::linorder, 'f) store \<Rightarrow> nat
     \<Rightarrow> ('d, 'f) response \<Rightarrow> ('d, 'f) response
     \<Rightarrow> (py_error + ('d, 'f) compared option) \<times> ('d, 'f) store" where
  "compare_portfolios_store ops raw st transactions my_stock_api potential_stock_api =
     (case fetch_nav_data my_stock_api of
        Inl e \<Rightarrow> (Inl e, st)
      | Inr my \<Rightarrow>
          (case fetch_nav_data potential_stock_api of
             Inl e \<Rightarrow> (Inl e, st)
           | Inr potential \<Rightarrow>
               (case (my, potential) of
                  (Some (my_nav_data, my_scheme_name),
                   Some (potential_nav_data, potential_scheme_name)) \<Rightarrow>
                    let unique_schemes = unique (map scheme (st ! transactions))
                    in (case fuzzy_match_scheme raw my_scheme_name unique_schemes 70 of
                          None \<Rightarrow> (Inr None, st)
                        | Some matched_scheme \<Rightarrow>
                            let (input_transactions, st1) =
                                  new_frame st
                                    (filter (\<lambda>t. scheme t = matched_scheme) (st ! transactions))
                            in if st1 ! input_transactions = [] then (Inr None, st1)
                               else
                                 let (my_portfolio_value, my_detailed_calc) =
                                       calculate_portfolio_value ops
                                         (st1 ! input_transactions) my_nav_data False;
                                     (transactions_potential, st2) =
                                       new_frame st1 (st1 ! input_transactions)
                                 in (case assign_units (potential_units ops potential_nav_data)
                                            (st2 ! transactions_potential) of
                                       Inl e \<Rightarrow> (Inl e, st2)
                                     | Inr rows \<Rightarrow>
                                         let st3 = st2 [transactions_potential := rows];
                                             (potential_portfolio_value, potential_detailed_calc) =
                                               calculate_portfolio_value ops
                                                 (st3 ! transactions_potential)
                                                 potential_nav_data True
                                         in (Inr (Some
                                              (\<lparr> input_api = my_scheme_name,
                                                 input_matched = matched_scheme,
                                                 potential_name = potential_scheme_name,
                                                 input_value = my_portfolio_value,
                                                 potential_value = potential_portfolio_value,
                                                 difference = fsub ops potential_portfolio_value
                                                                my_portfolio_value \<rparr>,
                                               my_detailed_calc, potential_detailed_calc)),
                                             st3)))
                | _ \<Rightarrow> (Inr None, st))))"

section \<open>Properties of the valuation engine\<close>

subsection \<open>Auxiliary facts\<close>

lemma sort_key_Nil_iff: "sort_key f xs = [] \<longleftrightarrow> xs = []"
  by (metis length_0_conv length_sort)

lemma sorted_le_last: "sorted xs \<Longrightarrow> x \<in> set xs \<Longrightarrow> x \<le> last xs"
  by (induction xs) (auto simp: last_in_set)

lemma asof_forward_None:
  "asof_forward d right = None \<longleftrightarrow> (\<forall>q\<in>set right. date q < d)"
  by (auto simp: asof_forward_def find_None_iff not_le)

lemma asof_forward_Some:
  assumes "asof_forward d right = Some p"
  shows "p \<in> set right" and "d \<le> date p"
  using assms by (auto simp: asof_forward_def find_Some_iff)

lemma asof_forward_least:
  assumes "asof_forward d right = Some p" and "sorted (map date right)"
    and "q \<in> set right" and "d \<le> date q"
  shows "date p \<le> date q"
proof -
  from assms(1) obtain i where i: "i < length right" "p = right ! i"
    and before: "\<forall>j<i. \<not> d \<le> date (right ! j)"
    by (auto simp: asof_forward_def find_Some_iff)
  from assms(3) obtain k where k: "k < length right" "q = right ! k"
    by (auto simp: in_set_conv_nth)
  have "i \<le> k"
  proof (rule ccontr)
    assume "\<not> i \<le> k"
    then have "k < i" by simp
    with before have "\<not> d \<le> date (right ! k)" by blast
    with assms(4) k show False by simp
  qed
  with assms(2) k i have "map date right ! i \<le> map date right ! k"
    by (intro sorted_nth_mono) auto
  with i k show ?thesis by simp
qed

lemma calc_nonempty:
  assumes "transactions \<noteq> []" "nav_data \<noteq> []"
  shows "calculate_portfolio_value ops transactions nav_data p =
     (let rows = map (\<lambda>t. (if p then potential_columns ops else id)
                     (value_row ops (nav (last nav_data)) (join_row ops (sort_key date nav_data) t)))
                   (sort_key transaction_date transactions)
      in (series_sum ops (map current_value rows), rows))"
  using assms
  by (auto simp: calculate_portfolio_value_def merge_asof_forward_def Let_def comp_def sort_key_Nil_iff)

lemma ledger_join_row [simp]: "ledger_columns (join_row ops right t) = t"
  by (simp add: ledger_columns_def join_row_def split: option.splits)

lemma ledger_value_row [simp]: "ledger_columns (value_row ops cur m) = ledger_columns m"
  by (simp add: ledger_columns_def value_row_def)

lemma ledger_potential_columns [simp]: "ledger_columns (potential_columns ops r) = ledger_columns r"
  by (simp add: ledger_columns_def potential_columns_def Let_def)

lemma calc_rows_ledger:
  assumes "transactions \<noteq> []" "nav_data \<noteq> []"
  shows "map ledger_columns (snd (calculate_portfolio_value ops transactions nav_data p))
           = sort_key transaction_date transactions"
  using assms by (simp add: calc_nonempty Let_def comp_def map_idI)

lemma row_fields:
  "transaction_date (value_row ops cur m) = transaction_date m"
  "units (value_row ops cur m) = units m"
  "gross_amount (value_row ops cur m) = gross_amount m"
  "matched_date (value_row ops cur m) = matched_date m"
  "matched_nav (value_row ops cur m) = matched_nav m"
  "current_nav (value_row ops cur m) = cur"
  "current_value (value_row ops cur m) = fmul ops (units m) cur"
  "transaction_date (potential_columns ops r) = transaction_date r"
  "units (potential_columns ops r) = units r"
  "gross_amount (potential_columns ops r) = gross_amount r"
  "matched_date (potential_columns ops r) = matched_date r"
  "matched_nav (potential_columns ops r) = matched_nav r"
  "current_nav (potential_columns ops r) = current_nav r"
  "current_value (potential_columns ops r) = current_value r"
  by (simp_all add: value_row_def potential_columns_def Let_def)

lemma join_row_fields:
  "transaction_date (join_row ops right t) = transaction_date t"
  "units (join_row ops right t) = units t"
  "gross_amount (join_row ops right t) = gross_amount t"
  "matched_date (join_row ops right t) = map_option date (asof_forward (transaction_date t) right)"
  "matched_nav (join_row ops right t) =
     (case asof_forward (transaction_date t) right of None \<Rightarrow> fnan ops | Some p \<Rightarrow> nav p)"
  by (simp_all add: join_row_def split: option.splits)

lemma calc_row_cases:
  assumes "r \<in> set (snd (calculate_portfolio_value ops transactions nav_data p))"
  obtains t where "t \<in> set transactions" "transactions \<noteq> []" "nav_data \<noteq> []"
    "r = (if p then potential_columns ops else id)
           (value_row ops (nav (last nav_data)) (join_row ops (sort_key date nav_data) t))"
proof (cases "transactions = [] \<or> nav_data = []")
  case True
  with assms show ?thesis by (auto simp: calculate_portfolio_value_def)
next
  case False
  with assms that show ?thesis
    by (auto simp: calc_nonempty Let_def)
qed

lemmas calc_eval =
  calculate_portfolio_value_def merge_asof_forward_def join_row_def asof_forward_def
  value_row_def potential_columns_def series_sum_def xops_def xsub_def xsigned_def Let_def

subsection \<open>Claims about \<^verbatim>\<open>calculate_portfolio_value\<close>\<close>

text \<open>
  Claim C7. When the ledger frame is empty or the price frame has no rows,
  \<^verbatim>\<open>calculate_portfolio_value\<close> returns zero and the empty frame; it is an ordinary return
  value (the function has no other kind of result), for either value of
  \<^verbatim>\<open>is_potential\<close>.
\<close>

theorem empty_input_returns_zero_and_empty:
  "transactions = [] \<or> nav_data = []
   \<Longrightarrow> calculate_portfolio_value ops transactions nav_data is_potential = (fzero ops, [])"
  by (simp add: calculate_portfolio_value_def)

theorem empty_input_witness:
  "calculate_portfolio_value xops
     ([] :: (nat \<times> nat \<times> nat, xnum) txn list)
     [\<lparr> date = (2023, 2, 1), nav = Fin 50 \<rparr>] False = (Fin 0, [])
   \<and> calculate_portfolio_value xops
     [\<lparr> transaction_date = (2023::nat, 1::nat, 10::nat), scheme = ''Fund A'',
        units = Fin 10, gross_amount = Fin 1000 \<rparr>]
     [] True = (Fin 0, [])"
  using empty_input_returns_zero_and_empty
      [of "[] :: (nat \<times> nat \<times> nat, xnum) txn list"
          "[\<lparr> date = (2023, 2, 1), nav = Fin 50 \<rparr>]" xops False]
    empty_input_returns_zero_and_empty
      [of "[\<lparr> transaction_date = (2023::nat, 1::nat, 10::nat), scheme = ''Fund A'',
              units = Fin 10, gross_amount = Fin 1000 \<rparr>]"
          "[] :: (nat \<times> nat \<times> nat, xnum) nav_row list" xops True]
  by (simp add: xops_def)

text \<open>
  Claim C9. For a non-empty ledger and a non-empty price series the returned frame has
  exactly one row per transaction: its ledger columns are the transactions sorted by
  date, so the two have the same length and the same rows counted with multiplicity. A
  transaction dated after every price point is still a row; its \<^verbatim>\<open>date\<close> is NaT and its
  \<^verbatim>\<open>nav\<close> is NaN.
\<close>

theorem one_row_per_transaction:
  assumes "transactions \<noteq> []" and "nav_data \<noteq> []"
  shows "let rows = snd (calculate_portfolio_value ops transactions nav_data is_potential)
         in map ledger_columns rows = sort_key transaction_date transactions
            \<and> length rows = length transactions
            \<and> mset (map ledger_columns rows) = mset transactions
            \<and> (\<forall>r\<in>set rows. (\<forall>q\<in>set nav_data. date q < transaction_date r)
                  \<longrightarrow> matched_date r = None \<and> matched_nav r = fnan ops)"
proof -
  let ?rows = "snd (calculate_portfolio_value ops transactions nav_data is_potential)"
  have a: "map ledger_columns ?rows = sort_key transaction_date transactions"
    using assms by (rule calc_rows_ledger)
  have b: "length ?rows = length transactions"
    using arg_cong [OF a, of length] by simp
  have c: "mset (map ledger_columns ?rows) = mset transactions"
    by (simp only: a mset_sort)
  have d: "matched_date r = None \<and> matched_nav r = fnan ops"
    if "r \<in> set ?rows" and "\<forall>q\<in>set nav_data. date q < transaction_date r" for r
  proof -
    from that(1) obtain t where
      r: "r = (if is_potential then potential_columns ops else id)
           (value_row ops (nav (last nav_data)) (join_row ops (sort_key date nav_data) t))"
      by (rule calc_row_cases)
    have td: "transaction_date r = transaction_date t"
      by (simp add: r row_fields join_row_fields)
    with that(2) have "asof_forward (transaction_date t) (sort_key date nav_data) = None"
      by (simp add: asof_forward_None)
    then show ?thesis by (simp add: r row_fields join_row_fields)
  qed
  from a b c d show ?thesis by (simp only: Let_def) blast
qed

theorem one_row_per_transaction_witness:
  "(let transactions =
          [\<lparr> transaction_date = (2023::nat, 3::nat, 5::nat), scheme = ''Fund A'',
             units = Fin 5, gross_amount = Fin 600 \<rparr>,
           \<lparr> transaction_date = (2023, 1, 10), scheme = ''Fund A'',
             units = Fin 10, gross_amount = Fin 1000 \<rparr>];
        nav_data = [\<lparr> date = (2023, 1, 9), nav = Fin 90 \<rparr>, \<lparr> date = (2023, 2, 1), nav = Fin 120 \<rparr>];
        rows = snd (calculate_portfolio_value xops transactions nav_data False)
    in transactions \<noteq> [] \<and> nav_data \<noteq> []
       \<and> length rows = 2
       \<and> map ledger_columns rows = rev transactions
       \<and> map matched_date rows = [Some (2023, 2, 1), None])"
  using one_row_per_transaction
    [of "[\<lparr> transaction_date = (2023::nat, 3::nat, 5::nat), scheme = ''Fund A'',
             units = Fin 5, gross_amount = Fin 600 \<rparr>,
           \<lparr> transaction_date = (2023, 1, 10), scheme = ''Fund A'',
             units = Fin 10, gross_amount = Fin 1000 \<rparr>]"
        "[\<lparr> date = (2023, 1, 9), nav = Fin 90 \<rparr>, \<lparr> date = (2023, 2, 1), nav = Fin 120 \<rparr>]"
        xops False]
  by (simp add: calc_eval)

text \<open>
  Claim C4. Every row of the result is matched forward: its matched date is the least
  date of the series that is not before the transaction date, it comes with the price of
  a point of that date, it is never before the transaction date, and it is missing
  exactly when every point of the series is before the transaction date. (The series is
  sorted inside the function, so this holds for every series, sorted ones in
  particular.) In the scenario a transaction of 2023-01-10 with 10 units against the
  series (2023-01-09, 90), (2023-02-01, 120) is matched to 2023-02-01 at 120 and is worth
  1200.
\<close>

theorem forward_join_matches_earliest_point_on_or_after:
  "(r \<in> set (snd (calculate_portfolio_value ops transactions nav_data is_potential)) \<longrightarrow>
      (matched_date r = None \<longleftrightarrow> (\<forall>q\<in>set nav_data. date q < transaction_date r))
      \<and> (\<forall>d. matched_date r = Some d \<longrightarrow>
            transaction_date r \<le> d
            \<and> (\<exists>q\<in>set nav_data. date q = d \<and> nav q = matched_nav r)
            \<and> (\<forall>q\<in>set nav_data. transaction_date r \<le> date q \<longrightarrow> d \<le> date q)))
   \<and> calculate_portfolio_value xops
         [\<lparr> transaction_date = (2023::nat, 1::nat, 10::nat), scheme = ''Fund A'',
            units = Fin 10, gross_amount = Fin 1000 \<rparr>]
         [\<lparr> date = (2023, 1, 9), nav = Fin 90 \<rparr>, \<lparr> date = (2023, 2, 1), nav = Fin 120 \<rparr>]
         False
       = (Fin 1200,
          [\<lparr> transaction_date = (2023, 1, 10), scheme = ''Fund A'',
             units = Fin 10, gross_amount = Fin 1000,
             matched_date = Some (2023, 2, 1), matched_nav = Fin 120,
             current_nav = Fin 120, current_value = Fin 1200,
             original_units = None, units_difference = None, value_difference = None \<rparr>])"
proof (intro conjI impI)
  assume "r \<in> set (snd (calculate_portfolio_value ops transactions nav_data is_potential))"
  then obtain t where
    r: "r = (if is_potential then potential_columns ops else id)
           (value_row ops (nav (last nav_data)) (join_row ops (sort_key date nav_data) t))"
    by (rule calc_row_cases)
  let ?right = "sort_key date nav_data"
  have td: "transaction_date r = transaction_date t"
    and md: "matched_date r = map_option date (asof_forward (transaction_date t) ?right)"
    and mn: "matched_nav r =
       (case asof_forward (transaction_date t) ?right of None \<Rightarrow> fnan ops | Some p \<Rightarrow> nav p)"
    by (simp_all add: r row_fields join_row_fields)
  show "matched_date r = None \<longleftrightarrow> (\<forall>q\<in>set nav_data. date q < transaction_date r)"
    by (simp add: md td asof_forward_None)
  show "\<forall>d. matched_date r = Some d \<longrightarrow>
            transaction_date r \<le> d
            \<and> (\<exists>q\<in>set nav_data. date q = d \<and> nav q = matched_nav r)
            \<and> (\<forall>q\<in>set nav_data. transaction_date r \<le> date q \<longrightarrow> d \<le> date q)"
  proof (intro allI impI)
    fix d assume "matched_date r = Some d"
    with md have "map_option date (asof_forward (transaction_date t) ?right) = Some d"
      by simp
    then obtain p where p: "asof_forward (transaction_date t) ?right = Some p" "d = date p"
      by (auto simp: map_option_eq_Some)
    have p1: "p \<in> set nav_data" and p2: "transaction_date t \<le> date p"
      using asof_forward_Some [OF p(1)] by simp_all
    have p3: "date p \<le> date q" if "q \<in> set nav_data" "transaction_date t \<le> date q" for q
      using asof_forward_least [OF p(1), of q] that by simp
    have "nav p = matched_nav r" by (simp add: mn p(1))
    with p1 p2 p3 show "transaction_date r \<le> d
            \<and> (\<exists>q\<in>set nav_data. date q = d \<and> nav q = matched_nav r)
            \<and> (\<forall>q\<in>set nav_data. transaction_date r \<le> date q \<longrightarrow> d \<le> date q)"
      unfolding td p(2) by blast
  qed
next
  show "calculate_portfolio_value xops
         [\<lparr> transaction_date = (2023::nat, 1::nat, 10::nat), scheme = ''Fund A'',
            units = Fin 10, gross_amount = Fin 1000 \<rparr>]
         [\<lparr> date = (2023, 1, 9), nav = Fin 90 \<rparr>, \<lparr> date = (2023, 2, 1), nav = Fin 120 \<rparr>]
         False
       = (Fin 1200,
          [\<lparr> transaction_date = (2023, 1, 10), scheme = ''Fund A'',
             units = Fin 10, gross_amount = Fin 1000,
             matched_date = Some (2023, 2, 1), matched_nav = Fin 120,
             current_nav = Fin 120, current_value = Fin 1200,
             original_units = None, units_difference = None, value_difference = None \<rparr>])"
    by (simp add: calc_eval)
qed

theorem forward_join_witness:
  "(let r = \<lparr> transaction_date = (2023::nat, 1::nat, 10::nat), scheme = ''Fund A'',
               units = Fin 10, gross_amount = Fin 1000,
               matched_date = Some (2023, 2, 1), matched_nav = Fin 120,
               current_nav = Fin 120, current_value = Fin 1200,
               original_units = None, units_difference = None, value_difference = None \<rparr>;
        nav_data = [\<lparr> date = (2023, 1, 9), nav = Fin 90 \<rparr>, \<lparr> date = (2023, 2, 1), nav = Fin 120 \<rparr>]
    in r \<in> set (snd (calculate_portfolio_value xops [ledger_columns r] nav_data False))
       \<and> matched_date r \<noteq> None
       \<and> (\<forall>q\<in>set nav_data. transaction_date r \<le> date q \<longrightarrow> (2023, 2, 1) \<le> date q))"
  using forward_join_matches_earliest_point_on_or_after
    [of "\<lparr> transaction_date = (2023::nat, 1::nat, 10::nat), scheme = ''Fund A'',
               units = Fin 10, gross_amount = Fin 1000,
               matched_date = Some (2023, 2, 1), matched_nav = Fin 120,
               current_nav = Fin 120, current_value = Fin 1200,
               original_units = None, units_difference = None, value_difference = None \<rparr>"
        xops
        "[\<lparr> transaction_date = (2023::nat, 1::nat, 10::nat), scheme = ''Fund A'',
            units = Fin 10, gross_amount = Fin 1000 \<rparr>]"
        "[\<lparr> date = (2023, 1, 9), nav = Fin 90 \<rparr>, \<lparr> date = (2023, 2, 1), nav = Fin 120 \<rparr>]"
        False]
  by (simp add: calc_eval ledger_columns_def)

text \<open>
  Claim C5. With \<^verbatim>\<open>is_potential\<close> set, every returned row carries
  \<^verbatim>\<open>Original Units = Gross Amount / nav\<close>, \<^verbatim>\<open>Units Difference = Units - Original Units\<close>
  and \<^verbatim>\<open>Value Difference = Current Value - Gross Amount\<close>, and its ledger columns, the
  units among them, are those of an input transaction. In the scenario a row of amount
  1000, forward price 50 and 10 units has 20 original units and a units difference of
  -10.
\<close>

theorem counterfactual_columns:
  "(\<forall>r\<in>set (snd (calculate_portfolio_value ops transactions nav_data True)).
       ledger_columns r \<in> set transactions
       \<and> original_units r = Some (fdiv ops (gross_amount r) (matched_nav r))
       \<and> units_difference r =
           Some (fsub ops (units r) (fdiv ops (gross_amount r) (matched_nav r)))
       \<and> value_difference r = Some (fsub ops (current_value r) (gross_amount r)))
   \<and> snd (calculate_portfolio_value xops
         [\<lparr> transaction_date = (2023::nat, 1::nat, 10::nat), scheme = ''Fund A'',
            units = Fin 10, gross_amount = Fin 1000 \<rparr>]
         [\<lparr> date = (2023, 2, 1), nav = Fin 50 \<rparr>]
         True)
       = [\<lparr> transaction_date = (2023, 1, 10), scheme = ''Fund A'',
            units = Fin 10, gross_amount = Fin 1000,
            matched_date = Some (2023, 2, 1), matched_nav = Fin 50,
            current_nav = Fin 50, current_value = Fin 500,
            original_units = Some (Fin 20), units_difference = Some (Fin (- 10)),
            value_difference = Some (Fin (- 500)) \<rparr>]"
proof (intro conjI ballI)
  fix r assume "r \<in> set (snd (calculate_portfolio_value ops transactions nav_data True))"
  then obtain t where t: "t \<in> set transactions"
    and r: "r = potential_columns ops
           (value_row ops (nav (last nav_data)) (join_row ops (sort_key date nav_data) t))"
    by (rule calc_row_cases) simp
  show "ledger_columns r \<in> set transactions"
    using t by (simp add: r)
  show "original_units r = Some (fdiv ops (gross_amount r) (matched_nav r))"
    by (simp add: r potential_columns_def Let_def)
  show "units_difference r =
           Some (fsub ops (units r) (fdiv ops (gross_amount r) (matched_nav r)))"
    by (simp add: r potential_columns_def Let_def)
  show "value_difference r = Some (fsub ops (current_value r) (gross_amount r))"
    by (simp add: r potential_columns_def Let_def)
next
  show "snd (calculate_portfolio_value xops
         [\<lparr> transaction_date = (2023::nat, 1::nat, 10::nat), scheme = ''Fund A'',
            units = Fin 10, gross_amount = Fin 1000 \<rparr>]
         [\<lparr> date = (2023, 2, 1), nav = Fin 50 \<rparr>]
         True)
       = [\<lparr> transaction_date = (2023, 1, 10), scheme = ''Fund A'',
            units = Fin 10, gross_amount = Fin 1000,
            matched_date = Some (2023, 2, 1), matched_nav = Fin 50,
            current_nav = Fin 50, current_value = Fin 500,
            original_units = Some (Fin 20), units_difference = Some (Fin (- 10)),
            value_difference = Some (Fin (- 500)) \<rparr>]"
    by (simp add: calc_eval)
qed

theorem counterfactual_columns_witness:
  "(let rows = snd (calculate_portfolio_value xops
         [\<lparr> transaction_date = (2023::nat, 1::nat, 10::nat), scheme = ''Fund A'',
            units = Fin 10, gross_amount = Fin 1000 \<rparr>]
         [\<lparr> date = (2023, 2, 1), nav = Fin 50 \<rparr>]
         True)
    in rows \<noteq> []
       \<and> (\<forall>r\<in>set rows. original_units r = Some (Fin 20)
             \<and> units_difference r = Some (Fin (- 10))
             \<and> value_difference r = Some (Fin (- 500))))"
  using counterfactual_columns
    [of xops
        "[\<lparr> transaction_date = (2023::nat, 1::nat, 10::nat), scheme = ''Fund A'',
            units = Fin 10, gross_amount = Fin 1000 \<rparr>]"
        "[\<lparr> date = (2023, 2, 1), nav = Fin 50 \<rparr>]"]
  by (simp add: xops_def xsub_def)

text \<open>
  Claim C1 does not hold as stated. \<^verbatim>\<open>merge_asof\<close> is a left join and
  \<^verbatim>\<open>Current Value\<close> is computed from \<^verbatim>\<open>Units\<close>, which a missing match leaves alone: the
  transaction of 2023-03-05 below has no price point on or after its date, stays in the
  result with NaT and NaN in the price columns, and adds 5 * 120 = 600 to the total,
  1800 instead of 1200.
\<close>

theorem unmatched_transaction_is_valued:
  "calculate_portfolio_value xops
     [\<lparr> transaction_date = (2023::nat, 1::nat, 10::nat), scheme = ''Fund A'',
        units = Fin 10, gross_amount = Fin 1000 \<rparr>,
      \<lparr> transaction_date = (2023, 3, 5), scheme = ''Fund A'',
        units = Fin 5, gross_amount = Fin 600 \<rparr>]
     [\<lparr> date = (2023, 1, 9), nav = Fin 90 \<rparr>, \<lparr> date = (2023, 2, 1), nav = Fin 120 \<rparr>]
     False
   = (Fin 1800,
      [\<lparr> transaction_date = (2023, 1, 10), scheme = ''Fund A'',
         units = Fin 10, gross_amount = Fin 1000,
         matched_date = Some (2023, 2, 1), matched_nav = Fin 120,
         current_nav = Fin 120, current_value = Fin 1200,
         original_units = None, units_difference = None, value_difference = None \<rparr>,
       \<lparr> transaction_date = (2023, 3, 5), scheme = ''Fund A'',
         units = Fin 5, gross_amount = Fin 600,
         matched_date = None, matched_nav = NaN,
         current_nav = Fin 120, current_value = Fin 600,
         original_units = None, units_difference = None, value_difference = None \<rparr>])"
  by (simp add: calc_eval)

text \<open>
  Claim C1, amended. For a non-empty ledger and a non-empty price series every
  transaction is a row of the result, matched or not; every row's current value is its
  units times the price of the last row of the series; and the total is pandas' sum
  (NaN counted as zero) of the current values of all rows.
\<close>

theorem total_value_sums_every_row:
  assumes "transactions \<noteq> []" and "nav_data \<noteq> []"
  shows "let (total_value, rows) =
               calculate_portfolio_value ops transactions nav_data is_potential
         in mset (map ledger_columns rows) = mset transactions
            \<and> (\<forall>r\<in>set rows. current_value r = fmul ops (units r) (nav (last nav_data)))
            \<and> total_value = series_sum ops (map current_value rows)
            \<and> total_value = series_sum ops
                (map (\<lambda>t. fmul ops (units t) (nav (last nav_data)))
                   (sort_key transaction_date transactions))"
proof -
  obtain total_value rows where
    eq: "calculate_portfolio_value ops transactions nav_data is_potential = (total_value, rows)"
    by (cases "calculate_portfolio_value ops transactions nav_data is_potential")
  have rows: "rows = snd (calculate_portfolio_value ops transactions nav_data is_potential)"
    by (simp add: eq)
  have a: "mset (map ledger_columns rows) = mset transactions"
    unfolding rows by (simp only: calc_rows_ledger [OF assms] mset_sort)
  have b: "current_value r = fmul ops (units r) (nav (last nav_data))" if "r \<in> set rows" for r
  proof -
    from that obtain t where
      "r = (if is_potential then potential_columns ops else id)
           (value_row ops (nav (last nav_data)) (join_row ops (sort_key date nav_data) t))"
      unfolding rows by (rule calc_row_cases)
    then show ?thesis by (simp add: row_fields join_row_fields)
  qed
  have "fst (calculate_portfolio_value ops transactions nav_data is_potential)
          = series_sum ops
              (map current_value
                 (snd (calculate_portfolio_value ops transactions nav_data is_potential)))"
    using assms by (simp add: calc_nonempty Let_def)
  then have c: "total_value = series_sum ops (map current_value rows)"
    by (simp add: eq)
  have "map current_value rows
          = map (\<lambda>r. fmul ops (units r) (nav (last nav_data))) rows"
    using b by simp
  also have "\<dots> = map (\<lambda>t. fmul ops (units t) (nav (last nav_data))) (map ledger_columns rows)"
    by (simp add: comp_def ledger_columns_def)
  also have "map ledger_columns rows = sort_key transaction_date transactions"
    unfolding rows by (rule calc_rows_ledger [OF assms])
  finally have d: "total_value = series_sum ops
                (map (\<lambda>t. fmul ops (units t) (nav (last nav_data)))
                   (sort_key transaction_date transactions))"
    using c by simp
  from a b c d show ?thesis by (simp only: eq Let_def split) blast
qed

theorem total_value_sums_every_row_witness:
  "(let transactions =
          [\<lparr> transaction_date = (2023::nat, 1::nat, 10::nat), scheme = ''Fund A'',
             units = Fin 10, gross_amount = Fin 1000 \<rparr>,
           \<lparr> transaction_date = (2023, 3, 5), scheme = ''Fund A'',
             units = Fin 5, gross_amount = Fin 600 \<rparr>];
        nav_data = [\<lparr> date = (2023, 1, 9), nav = Fin 90 \<rparr>, \<lparr> date = (2023, 2, 1), nav = Fin 120 \<rparr>];
        result = calculate_portfolio_value xops transactions nav_data False
    in transactions \<noteq> [] \<and> nav_data \<noteq> []
       \<and> map ledger_columns (snd result) = transactions
       \<and> map current_value (snd result) = [Fin 1200, Fin 600]
       \<and> fst result = Fin 1800)"
  using total_value_sums_every_row
    [of "[\<lparr> transaction_date = (2023::nat, 1::nat, 10::nat), scheme = ''Fund A'',
             units = Fin 10, gross_amount = Fin 1000 \<rparr>,
           \<lparr> transaction_date = (2023, 3, 5), scheme = ''Fund A'',
             units = Fin 5, gross_amount = Fin 600 \<rparr>]"
        "[\<lparr> date = (2023, 1, 9), nav = Fin 90 \<rparr>, \<lparr> date = (2023, 2, 1), nav = Fin 120 \<rparr>]"
        xops False]
  by (simp add: calc_eval ledger_columns_def)

lemma current_price_sorted:
  assumes "sorted (map date nav_data)" and "nav_data \<noteq> []"
  shows "(\<forall>q\<in>set nav_data. date q \<le> date (last nav_data))
         \<and> (\<forall>r\<in>set (snd (calculate_portfolio_value ops transactions nav_data is_potential)).
               current_nav r = nav (last nav_data)
               \<and> current_value r = fmul ops (units r) (nav (last nav_data)))"
proof (intro conjI ballI)
  fix q assume "q \<in> set nav_data"
  then have "date q \<in> set (map date nav_data)" by simp
  with assms(1) have "date q \<le> last (map date nav_data)"
    by (rule sorted_le_last)
  with assms(2) show "date q \<le> date (last nav_data)" by (simp add: last_map)
next
  fix r assume "r \<in> set (snd (calculate_portfolio_value ops transactions nav_data is_potential))"
  then obtain t where
    r: "r = (if is_potential then potential_columns ops else id)
           (value_row ops (nav (last nav_data)) (join_row ops (sort_key date nav_data) t))"
    by (rule calc_row_cases)
  show "current_nav r = nav (last nav_data)"
    by (simp add: r row_fields)
  show "current_value r = fmul ops (units r) (nav (last nav_data))"
    by (simp add: r row_fields join_row_fields)
qed


text \<open>
  Claim C3. The price series the program values against is the one \<^verbatim>\<open>fetch_nav_data\<close>
  builds, and the feed may list its points in any order: the series holds the same
  points, its last row is a point of greatest date, the current price
  (\<^verbatim>\<open>nav_data.iloc[-1]['nav']\<close>) is the price of that row, and the current value of every
  row, matched or not, is units times that price. (Line 88 reads the frame as passed
  in; it is line 63 of \<^verbatim>\<open>fetch_nav_data\<close> that puts the latest point last, and both
  calls of lines 131 and 139 pass such a frame.)
\<close>

theorem current_price_is_latest_point_of_fetched_series:
  assumes "points \<noteq> []"
  shows "\<exists>nav_data.
           fetch_nav_data (Some (points, scheme_name)) = Inr (Some (nav_data, scheme_name))
           \<and> mset nav_data = mset points
           \<and> last nav_data \<in> set points
           \<and> (\<forall>q\<in>set points. date q \<le> date (last nav_data))
           \<and> (\<forall>r\<in>set (snd (calculate_portfolio_value ops transactions nav_data
                                is_potential)).
                 current_nav r = nav (last nav_data)
                 \<and> current_value r = fmul ops (units r) (nav (last nav_data)))"
proof -
  let ?nav_data = "sort_key date points"
  have ne: "?nav_data \<noteq> []" using assms by (simp add: sort_key_Nil_iff)
  have fetched: "fetch_nav_data (Some (points, scheme_name))
                   = Inr (Some (?nav_data, scheme_name))"
    using assms by (simp add: fetch_nav_data_def)
  have same: "mset ?nav_data = mset points" by simp
  have "last ?nav_data \<in> set ?nav_data" using ne by (rule last_in_set)
  then have member: "last ?nav_data \<in> set points" by simp
  have "sorted (map date ?nav_data)" by simp
  from current_price_sorted [OF this ne, of ops transactions is_potential]
  have latest: "\<forall>q\<in>set points. date q \<le> date (last ?nav_data)"
    and rows: "\<forall>r\<in>set (snd (calculate_portfolio_value ops transactions ?nav_data
                                 is_potential)).
                 current_nav r = nav (last ?nav_data)
                 \<and> current_value r = fmul ops (units r) (nav (last ?nav_data))"
    by simp_all
  from fetched same member latest rows show ?thesis by blast
qed

theorem current_price_is_latest_point_witness:
  "(let points = [\<lparr> date = (2023::nat, 2::nat, 1::nat), nav = Fin 120 \<rparr>,
                  \<lparr> date = (2023, 1, 9), nav = Fin 90 \<rparr>];
        nav_data = [\<lparr> date = (2023::nat, 1::nat, 9::nat), nav = Fin 90 \<rparr>,
                    \<lparr> date = (2023, 2, 1), nav = Fin 120 \<rparr>];
        rows = snd (calculate_portfolio_value xops
                 [\<lparr> transaction_date = (2023, 1, 10), scheme = ''Fund A'',
                    units = Fin 10, gross_amount = Fin 1000 \<rparr>] nav_data False)
    in points \<noteq> []
       \<and> fetch_nav_data (Some (points, ''Fund A'')) = Inr (Some (nav_data, ''Fund A''))
       \<and> (\<forall>q\<in>set points. date q \<le> (2023, 2, 1))
       \<and> rows \<noteq> []
       \<and> (\<forall>r\<in>set rows. current_nav r = Fin 120 \<and> current_value r = Fin 1200))"
  using current_price_is_latest_point_of_fetched_series
    [of "[\<lparr> date = (2023::nat, 2::nat, 1::nat), nav = Fin 120 \<rparr>,
          \<lparr> date = (2023, 1, 9), nav = Fin 90 \<rparr>]"
        "''Fund A''" xops
        "[\<lparr> transaction_date = (2023, 1, 10), scheme = ''Fund A'',
            units = Fin 10, gross_amount = Fin 1000 \<rparr>]"
        False]
  by (simp add: fetch_nav_data_def calc_eval)

section \<open>Properties of the fuzzy name matcher\<close>

lemma sort_cong_mset: "mset xs = mset ys \<Longrightarrow> sort xs = sort (ys :: 'a::linorder list)"
  by (rule properties_for_sort) simp_all

lemma process_and_sort_perm:
  assumes "mset (split a) = mset (split b)"
  shows "process_and_sort a force_ascii False = process_and_sort b force_ascii False"
  using sort_cong_mset [OF assms] by (simp add: process_and_sort_def Let_def)

lemma choice_score_perm:
  assumes "mset (split (full_process True (full_process False query)))
             = mset (split (full_process True (full_process False query')))"
    and "mset (split (full_process True choice)) = mset (split (full_process True choice'))"
  shows "choice_score raw query choice = choice_score raw query' choice'"
  using process_and_sort_perm [OF assms(1), of True] process_and_sort_perm [OF assms(2), of True]
  by (simp add: choice_score_def token_sort_ratio_def)

lemma first_max_None: "first_max xs = None \<longleftrightarrow> xs = []"
  by (cases xs) (auto split: option.splits if_splits)

lemma first_max_Some:
  "first_max xs = Some (c, s) \<Longrightarrow> (c, s) \<in> set xs \<and> (\<forall>(c', s')\<in>set xs. s' \<le> s)"
proof (induction xs arbitrary: c s)
  case Nil
  then show ?case by simp
next
  case (Cons x xs)
  show ?case
  proof (cases "first_max xs")
    case None
    then have "xs = []" by (simp add: first_max_None)
    with Cons.prems None show ?thesis by auto
  next
    case (Some y)
    obtain c' s' where y: "y = (c', s')" by (cases y)
    from Cons.IH [OF Some [unfolded y]] Cons.prems Some y show ?thesis
      by (auto split: if_splits)
  qed
qed

lemma extractOne_Some:
  assumes "extractOne raw query choices = Some (c, s)"
  shows "c \<in> set choices" and "s = choice_score raw query c" and "0 \<le> s"
    and "\<forall>c'\<in>set choices. choice_score raw query c' \<le> s"
proof -
  let ?scored = "filter (\<lambda>(c, score). 0 \<le> score) (map (\<lambda>c. (c, choice_score raw query c)) choices)"
  from assms have fm: "first_max ?scored = Some (c, s)" by (simp add: extractOne_def)
  from first_max_Some [OF fm] have mem: "(c, s) \<in> set ?scored"
    and best: "\<forall>(c', s')\<in>set ?scored. s' \<le> s" by blast+
  from mem show "c \<in> set choices" "s = choice_score raw query c" "0 \<le> s" by auto
  show "\<forall>c'\<in>set choices. choice_score raw query c' \<le> s"
  proof
    fix c' assume c': "c' \<in> set choices"
    show "choice_score raw query c' \<le> s"
    proof (cases "0 \<le> choice_score raw query c'")
      case True
      with c' have "(c', choice_score raw query c') \<in> set ?scored" by auto
      with best show ?thesis by blast
    next
      case False
      with \<open>0 \<le> s\<close> show ?thesis by simp
    qed
  qed
qed

lemma extractOne_None: "extractOne raw query choices = None \<longleftrightarrow>
    (\<forall>c\<in>set choices. choice_score raw query c < 0)"
  by (auto simp: extractOne_def first_max_None filter_empty_conv not_le)

lemma split_all_space: "\<forall>c\<in>set a. is_space c \<Longrightarrow> split a = []"
  by (induction a) auto

lemma split_leading: "\<forall>c\<in>set a. is_space c \<Longrightarrow> split (a @ m) = split m"
  by (induction a) auto

lemma split_append_space:
  "is_space c \<Longrightarrow> split (x @ c # y) = split x @ split y"
proof (induction x rule: split.induct)
  case 1
  then show ?case by simp
next
  case (2 c0 cs)
  show ?case
  proof (cases "is_space c0")
    case True
    with 2 show ?thesis by simp
  next
    case False
    show ?thesis
    proof (cases "\<forall>x\<in>set cs. \<not> is_space x")
      case True
      then have tw: "takeWhile (\<lambda>x. \<not> is_space x) cs = cs"
        and dw: "dropWhile (\<lambda>x. \<not> is_space x) cs = []"
        by simp_all
      from True False "2.prems" show ?thesis
        by (simp add: takeWhile_append dropWhile_append tw dw)
    next
      case ex: False
      then obtain x where x: "x \<in> set cs" "\<not> \<not> is_space x" by auto
      have tw: "takeWhile (\<lambda>x. \<not> is_space x) (cs @ c # y)
                  = takeWhile (\<lambda>x. \<not> is_space x) cs"
        using x by (rule takeWhile_append1)
      have dw: "dropWhile (\<lambda>x. \<not> is_space x) (cs @ c # y)
                  = dropWhile (\<lambda>x. \<not> is_space x) cs @ c # y"
        using x by (rule dropWhile_append1)
      from False "2.prems" "2.IH"(2) show ?thesis
        by (simp add: tw dw)
    qed
  qed
qed

lemma split_trailing: "\<forall>c\<in>set b. is_space c \<Longrightarrow> split (m @ b) = split m"
proof (cases b)
  case Nil
  then show ?thesis by simp
next
  case (Cons c b')
  assume "\<forall>c\<in>set b. is_space c"
  with Cons have "is_space c" and "\<forall>c\<in>set b'. is_space c" by simp_all
  then show ?thesis
    by (simp add: Cons split_append_space split_all_space)
qed

lemma strip_decomp:
  "\<exists>a b. s = a @ strip s @ b \<and> (\<forall>c\<in>set a. is_space c) \<and> (\<forall>c\<in>set b. is_space c)"
proof -
  let ?d = "dropWhile is_space s"
  let ?a = "takeWhile is_space s"
  let ?b = "rev (takeWhile is_space (rev ?d))"
  have "rev ?d = rev (rev (dropWhile is_space (rev ?d)) @ ?b)" by simp
  then have "?d = rev (dropWhile is_space (rev ?d)) @ ?b"
    by (simp only: rev_is_rev_conv)
  then have d: "?d = strip s @ ?b" by (simp only: strip_def)
  have "s = ?a @ ?d" by simp
  with d have "s = ?a @ strip s @ ?b" by simp
  moreover have "\<forall>c\<in>set ?a. is_space c" by (auto dest: set_takeWhileD)
  moreover have "\<forall>c\<in>set ?b. is_space c" by (auto dest: set_takeWhileD)
  ultimately show ?thesis by blast
qed

lemma split_strip: "split (strip s) = split s"
proof -
  from strip_decomp [of s] obtain a b where
    s: "s = a @ strip s @ b" and a: "\<forall>c\<in>set a. is_space c" and b: "\<forall>c\<in>set b. is_space c"
    by blast
  have "split s = split (a @ (strip s @ b))" using s by simp
  also have "\<dots> = split (strip s @ b)" using a by (rule split_leading)
  also have "\<dots> = split (strip s)" using b by (rule split_trailing)
  finally show ?thesis by simp
qed

lemma space_not_word: "is_space c \<Longrightarrow> \<not> is_word c"
  by (auto simp: is_space_def is_word_def Let_def)

lemma blank_facts:
  "is_space (CHR '' '')" "\<not> is_word (CHR '' '')" "lower_char (CHR '' '') = CHR '' ''"
  "code (CHR '' '') < 128"
  by (simp_all add: is_space_def is_word_def lower_char_def code_def)

lemma prepared_spaces:
  assumes "\<forall>c\<in>set a. is_space c"
  shows "\<forall>c\<in>set (to_lower_case (replace_non_letters_non_numbers_with_whitespace a)).
           is_space c"
    and "\<forall>c\<in>set (to_lower_case (replace_non_letters_non_numbers_with_whitespace
                                      (asciidammit a))). is_space c"
  using assms
  by (auto simp: to_lower_case_def replace_non_letters_non_numbers_with_whitespace_def
        asciidammit_def space_not_word blank_facts)

lemma split_charwise_strip:
  assumes app: "\<And>x y. g (x @ y) = g x @ g y"
    and sp: "\<And>a. \<forall>c\<in>set a. is_space c \<Longrightarrow> \<forall>c\<in>set (g a). is_space c"
  shows "split (g (strip s)) = split (g s)"
proof -
  from strip_decomp [of s] obtain a b where
    s: "s = a @ strip s @ b" and a: "\<forall>c\<in>set a. is_space c" and b: "\<forall>c\<in>set b. is_space c"
    by blast
  have "g s = g (a @ strip s @ b)" using s by simp
  then have "split (g s) = split (g a @ (g (strip s) @ g b))" by (simp only: app)
  also have "\<dots> = split (g (strip s) @ g b)" using sp [OF a] by (rule split_leading)
  also have "\<dots> = split (g (strip s))" using sp [OF b] by (rule split_trailing)
  finally show ?thesis by simp
qed

lemma query_tokens:
  "split (full_process True (full_process False s)) =
   split (to_lower_case (replace_non_letters_non_numbers_with_whitespace (asciidammit
            (to_lower_case (replace_non_letters_non_numbers_with_whitespace s)))))"
proof -
  let ?g = "\<lambda>u. to_lower_case (replace_non_letters_non_numbers_with_whitespace (asciidammit u))"
  have app: "\<And>x y. ?g (x @ y) = ?g x @ ?g y"
    by (simp add: to_lower_case_def replace_non_letters_non_numbers_with_whitespace_def
          asciidammit_def)
  have sp: "\<And>a. \<forall>c\<in>set a. is_space c \<Longrightarrow> \<forall>c\<in>set (?g a). is_space c"
    by (rule prepared_spaces(2))
  have "split (full_process True (full_process False s))
          = split (?g (strip (to_lower_case (replace_non_letters_non_numbers_with_whitespace s))))"
    by (simp add: full_process_def split_strip)
  also have "\<dots> = split (?g (to_lower_case (replace_non_letters_non_numbers_with_whitespace s)))"
    using app sp by (rule split_charwise_strip)
  finally show ?thesis .
qed

lemma choice_tokens:
  "split (full_process True s) =
   split (to_lower_case (replace_non_letters_non_numbers_with_whitespace (asciidammit s)))"
  by (simp add: full_process_def split_strip)

lemma split_join_charwise:
  assumes app: "\<And>x y. g (x @ y) = g x @ g y"
    and blank: "\<And>y. g (CHR '' '' # y) = CHR '' '' # g y"
  shows "split (g (join ws)) = concat (map (\<lambda>w. split (g w)) ws)"
proof (induction ws rule: join.induct)
  case 1
  have "g ([] @ []) = g [] @ g []" by (rule app)
  then have "g [] = []" by simp
  then show ?case by simp
next
  case (2 w)
  show ?case by simp
next
  case (3 w v ws)
  have "split (g (join (w # v # ws))) = split (g w @ CHR '' '' # g (join (v # ws)))"
    by (simp add: app blank)
  also have "\<dots> = split (g w) @ split (g (join (v # ws)))"
    by (rule split_append_space) (rule blank_facts(1))
  finally show ?case using 3 by simp
qed

lemma mset_concat_map_cong:
  assumes "mset ws = mset ws'"
  shows "mset (concat (map f ws)) = mset (concat (map f ws'))"
proof -
  have "mset (concat (map f xs)) = sum_mset (image_mset (\<lambda>w. mset (f w)) (mset xs))" for xs
    by (induction xs) simp_all
  with assms show ?thesis by simp
qed

lemma query_tokens_join_perm:
  assumes "mset ws = mset ws'"
  shows "mset (split (full_process True (full_process False (join ws))))
         = mset (split (full_process True (full_process False (join ws'))))"
proof -
  let ?g = "\<lambda>u. to_lower_case (replace_non_letters_non_numbers_with_whitespace (asciidammit
            (to_lower_case (replace_non_letters_non_numbers_with_whitespace u))))"
  have app: "\<And>x y. ?g (x @ y) = ?g x @ ?g y"
    by (simp add: to_lower_case_def replace_non_letters_non_numbers_with_whitespace_def
          asciidammit_def)
  have blank: "\<And>y. ?g (CHR '' '' # y) = CHR '' '' # ?g y"
    by (simp add: to_lower_case_def replace_non_letters_non_numbers_with_whitespace_def
          asciidammit_def blank_facts)
  have "split (?g (join xs)) = concat (map (\<lambda>w. split (?g w)) xs)" for xs
    using app blank by (rule split_join_charwise)
  then show ?thesis
    by (simp only: query_tokens mset_concat_map_cong [OF assms])
qed

lemma choice_tokens_join_perm:
  assumes "mset ws = mset ws'"
  shows "mset (split (full_process True (join ws))) = mset (split (full_process True (join ws')))"
proof -
  let ?g = "\<lambda>u. to_lower_case (replace_non_letters_non_numbers_with_whitespace (asciidammit u))"
  have app: "\<And>x y. ?g (x @ y) = ?g x @ ?g y"
    by (simp add: to_lower_case_def replace_non_letters_non_numbers_with_whitespace_def
          asciidammit_def)
  have blank: "\<And>y. ?g (CHR '' '' # y) = CHR '' '' # ?g y"
    by (simp add: to_lower_case_def replace_non_letters_non_numbers_with_whitespace_def
          asciidammit_def blank_facts)
  have "split (?g (join xs)) = concat (map (\<lambda>w. split (?g w)) xs)" for xs
    using app blank by (rule split_join_charwise)
  then show ?thesis
    by (simp only: choice_tokens mset_concat_map_cong [OF assms])
qed

text \<open>
  Claim C6. The score \<^verbatim>\<open>fuzzy_match_scheme\<close> ranks candidates by does not depend on the
  order of tokens: two targets whose prepared tokens are the same up to order, and two
  candidates likewise, score the same, whatever the underlying sequence matcher is. In
  particular the words of a target and of a candidate, joined by blanks, may each be
  reordered at will, and "Growth Fund Direct" scores 100 against "Direct Growth Fund".
  The pair \<^verbatim>\<open>extractOne\<close> returns is a candidate of greatest score, and the function
  returns \<open>None\<close> when that score is below the threshold (and the candidate otherwise);
  put differently, it returns \<open>None\<close> whenever every candidate scores below the
  threshold, 70 in \<^verbatim>\<open>compare_portfolios\<close>.
\<close>

theorem fuzzy_match_token_order_and_threshold:
  "(mset (split (full_process True (full_process False target)))
        = mset (split (full_process True (full_process False target')))
      \<and> mset (split (full_process True candidate)) = mset (split (full_process True candidate'))
      \<longrightarrow> choice_score raw target candidate = choice_score raw target' candidate')
   \<and> (mset ws = mset ws' \<and> mset vs = mset vs'
        \<longrightarrow> choice_score raw (join ws) (join vs) = choice_score raw (join ws') (join vs'))
   \<and> choice_score raw ''Growth Fund Direct'' ''Direct Growth Fund'' = 100
   \<and> (\<forall>c s. extractOne raw target candidates = Some (c, s) \<longrightarrow>
          c \<in> set candidates \<and> s = choice_score raw target c
          \<and> (\<forall>c'\<in>set candidates. choice_score raw target c' \<le> s)
          \<and> (s < threshold \<longrightarrow> fuzzy_match_scheme raw target candidates threshold = None)
          \<and> (threshold \<le> s \<longrightarrow> fuzzy_match_scheme raw target candidates threshold = Some c))
   \<and> ((\<forall>c\<in>set candidates. choice_score raw target c < threshold)
        \<longrightarrow> fuzzy_match_scheme raw target candidates threshold = None)"
proof (intro conjI allI impI)
  assume "mset (split (full_process True (full_process False target)))
        = mset (split (full_process True (full_process False target')))
      \<and> mset (split (full_process True candidate)) = mset (split (full_process True candidate'))"
  then show "choice_score raw target candidate = choice_score raw target' candidate'"
    by (blast intro: choice_score_perm)
next
  assume "mset ws = mset ws' \<and> mset vs = mset vs'"
  then have "mset ws = mset ws'" and "mset vs = mset vs'" by simp_all
  then show "choice_score raw (join ws) (join vs) = choice_score raw (join ws') (join vs')"
    by (intro choice_score_perm query_tokens_join_perm choice_tokens_join_perm)
next
  show "choice_score raw ''Growth Fund Direct'' ''Direct Growth Fund'' = 100"
    by code_simp
next
  fix c s assume e: "extractOne raw target candidates = Some (c, s)"
  show "c \<in> set candidates" by (rule extractOne_Some(1) [OF e])
  show "s = choice_score raw target c" by (rule extractOne_Some(2) [OF e])
  show "\<forall>c'\<in>set candidates. choice_score raw target c' \<le> s"
    by (rule extractOne_Some(4) [OF e])
  show "fuzzy_match_scheme raw target candidates threshold = None" if "s < threshold"
    using that by (simp add: fuzzy_match_scheme_def e)
  show "fuzzy_match_scheme raw target candidates threshold = Some c" if "threshold \<le> s"
    using that by (simp add: fuzzy_match_scheme_def e)
next
  assume low: "\<forall>c\<in>set candidates. choice_score raw target c < threshold"
  show "fuzzy_match_scheme raw target candidates threshold = None"
  proof (cases "extractOne raw target candidates")
    case None
    then show ?thesis by (simp add: fuzzy_match_scheme_def)
  next
    case (Some best)
    obtain c s where best: "best = (c, s)" by (cases best)
    from Some best have e: "extractOne raw target candidates = Some (c, s)" by simp
    from extractOne_Some(1,2) [OF e] low have "s < threshold" by blast
    then show ?thesis by (simp add: fuzzy_match_scheme_def e)
  qed
qed

theorem fuzzy_match_witness:
  "choice_score (\<lambda>_ _. 40) ''Fund A - Growth'' ''Fund B'' = 40
   \<and> choice_score (\<lambda>_ _. 40) ''growth  FUND-a'' ''Fund B'' = 40
   \<and> choice_score (\<lambda>_ _. 40) ''Growth Fund A'' ''B Fund'' = 40
   \<and> extractOne (\<lambda>_ _. 40) ''Fund A - Growth'' [''Fund B''] = Some (''Fund B'', 40)
   \<and> fuzzy_match_scheme (\<lambda>_ _. 40) ''Fund A - Growth'' [''Fund B''] 70 = None
   \<and> fuzzy_match_scheme (\<lambda>_ _. 40) ''Fund A - Growth'' [''Fund B''] 40 = Some ''Fund B''"
proof -
  note claim = fuzzy_match_token_order_and_threshold
      [where raw = "\<lambda>_ _. 40"
         and target = "''Fund A - Growth''" and target' = "''growth  FUND-a''"
         and candidate = "''Fund B''" and candidate' = "''Fund B''"
         and ws = "[''Fund'', ''A'', ''Growth'']" and ws' = "[''Growth'', ''Fund'', ''A'']"
         and vs = "[''Fund'', ''B'']" and vs' = "[''B'', ''Fund'']"
         and candidates = "[''Fund B'']"]
  have a: "split (full_process True (full_process False ''Fund A - Growth''))
             = [''fund'', ''a'', ''growth'']" by code_simp
  have b: "split (full_process True (full_process False ''growth  FUND-a''))
             = [''growth'', ''fund'', ''a'']" by code_simp
  have s: "choice_score (\<lambda>_ _. 40) ''Fund A - Growth'' ''Fund B'' = 40" by code_simp
  have s': "choice_score (\<lambda>_ _. 40) ''Fund A Growth'' ''Fund B'' = 40" by code_simp
  have e: "extractOne (\<lambda>_ _. 40) ''Fund A - Growth'' [''Fund B''] = Some (''Fund B'', 40)"
    by (simp add: extractOne_def s)
  have "mset [''fund'', ''a'', ''growth''] = mset [''growth'', ''fund'', ''a'']" by simp
  then have perm: "choice_score (\<lambda>_ _. 40) ''Fund A - Growth'' ''Fund B''
              = choice_score (\<lambda>_ _. 40) ''growth  FUND-a'' ''Fund B''"
    using claim [where threshold = 70, THEN conjunct1] by (simp only: a b simp_thms)
  have m: "mset [''Fund'', ''A'', ''Growth''] = mset [''Growth'', ''Fund'', ''A'']
           \<and> mset [''Fund'', ''B''] = mset [''B'', ''Fund'']" by simp
  have "choice_score (\<lambda>_ _. 40) (join [''Fund'', ''A'', ''Growth'']) (join [''Fund'', ''B''])
          = choice_score (\<lambda>_ _. 40) (join [''Growth'', ''Fund'', ''A'']) (join [''B'', ''Fund''])"
    using claim [where threshold = 70, THEN conjunct2, THEN conjunct1] m by (rule mp)
  then have words: "choice_score (\<lambda>_ _. 40) ''Growth Fund A'' ''B Fund'' = 40"
    using s' by simp
  have n: "fuzzy_match_scheme (\<lambda>_ _. 40) ''Fund A - Growth'' [''Fund B''] 70 = None"
    using claim [where threshold = 70, THEN conjunct2, THEN conjunct2, THEN conjunct2,
                 THEN conjunct1, THEN spec, THEN spec, THEN mp, OF e]
    by simp
  have y: "fuzzy_match_scheme (\<lambda>_ _. 40) ''Fund A - Growth'' [''Fund B''] 40 = Some ''Fund B''"
    using claim [where threshold = 40, THEN conjunct2, THEN conjunct2, THEN conjunct2,
                 THEN conjunct1, THEN spec, THEN spec, THEN mp, OF e]
    by simp
  from s perm words e n y show ?thesis by simp
qed

section \<open>Properties of the comparison\<close>

subsection \<open>Auxiliary facts\<close>

lemma set_unique [simp]: "set (unique xs) = set xs"
  by (induction xs) auto

lemma fetch_nav_data_Some:
  "points \<noteq> [] \<Longrightarrow>
   fetch_nav_data (Some (points, name)) = Inr (Some (sort_key date points, name))"
  by (simp add: fetch_nav_data_def)

lemma potential_units_asof:
  "potential_units ops navs t =
     (case asof_forward (transaction_date t) navs of
        None \<Rightarrow> Inl IndexError
      | Some p \<Rightarrow> Inr (fdiv ops (gross_amount t) (nav p)))"
proof (induction navs)
  case Nil
  show ?case by (simp add: potential_units_def asof_forward_def)
next
  case (Cons a navs)
  then show ?case
    by (cases "date a < transaction_date t")
       (auto simp: potential_units_def asof_forward_def)
qed

lemma assign_units_error:
  "assign_units (potential_units ops navs) rows = Inl e \<Longrightarrow> e = IndexError"
  by (induction rows arbitrary: e)
     (auto simp: potential_units_asof split: sum.splits option.splits)

lemma assign_units_raises:
  assumes "t \<in> set rows" and "potential_units ops navs t = Inl IndexError"
  shows "assign_units (potential_units ops navs) rows = Inl IndexError"
  using assms
proof (induction rows)
  case Nil
  then show ?case by simp
next
  case (Cons r rows)
  show ?case
  proof (cases "potential_units ops navs r")
    case (Inl e)
    then have "e = IndexError" by (simp add: potential_units_asof split: option.splits)
    with Inl show ?thesis by simp
  next
    case (Inr u)
    with Cons.prems have "t \<in> set rows" by auto
    from Cons.IH [OF this Cons.prems(2)] Inr show ?thesis by simp
  qed
qed

lemma assign_units_ok:
  assumes "\<forall>t\<in>set rows. \<exists>p. asof_forward (transaction_date t) navs = Some p"
  shows "assign_units (potential_units ops navs) rows =
     Inr (map (\<lambda>t. t \<lparr> units := fdiv ops (gross_amount t)
                         (nav (the (asof_forward (transaction_date t) navs))) \<rparr>) rows)"
  using assms by (induction rows) (auto simp: potential_units_asof)

lemma compare_portfolios_fetched:
  assumes "my_points \<noteq> []" and "potential_points \<noteq> []"
    and "fuzzy_match_scheme raw my_scheme_name (unique (map scheme transactions)) 70
           = Some matched_scheme"
  shows "compare_portfolios ops raw transactions
           (Some (my_points, my_scheme_name)) (Some (potential_points, potential_scheme_name))
         = compare_matched ops transactions matched_scheme
             (sort_key date my_points) my_scheme_name
             (sort_key date potential_points) potential_scheme_name"
  using assms by (simp add: compare_portfolios_def fetch_nav_data_Some)

lemma match_fund_a:
  "fuzzy_match_scheme (\<lambda>_ _. 0) ''Fund A'' [''Fund A''] 70 = Some ''Fund A''"
  by code_simp

lemmas compare_eval =
  compare_portfolios_def compare_matched_def fetch_nav_data_def potential_units_def

lemma compare_store_result:
  assumes "a < length st"
  shows "\<exists>ext. compare_portfolios_store ops raw st a my pot
           = (compare_portfolios ops raw (st ! a) my pot, st @ ext)"
  using assms
  by (auto simp: compare_portfolios_store_def compare_portfolios_def compare_matched_def
        new_frame_def Let_def nth_append list_update_append
      split: sum.splits option.splits prod.splits)

subsection \<open>Claims about \<^verbatim>\<open>compare_portfolios\<close>\<close>

text \<open>
  Claim C2 does not hold as stated. \<^verbatim>\<open>run.py\<close> defines no error of its own: for a
  transaction dated after the last point of the alternative series the slice
  \<^verbatim>\<open>potential_navs.loc[d:]\<close> is empty, \<^verbatim>\<open>.iloc[0]\<close> raises pandas' IndexError, and
  nothing catches it, so it leaves \<^verbatim>\<open>compare_portfolios\<close> as it is.
\<close>

theorem lookup_past_series_end_example:
  "compare_portfolios xops (\<lambda>_ _. 0)
     [\<lparr> transaction_date = (2023::nat, 3::nat, 10::nat), scheme = ''Fund A'',
        units = Fin 10, gross_amount = Fin 1000 \<rparr>]
     (Some ([\<lparr> date = (2023, 1, 9), nav = Fin 90 \<rparr>, \<lparr> date = (2023, 4, 1), nav = Fin 120 \<rparr>],
            ''Fund A''))
     (Some ([\<lparr> date = (2023, 1, 9), nav = Fin 40 \<rparr>, \<lparr> date = (2023, 2, 1), nav = Fin 50 \<rparr>],
            ''Fund B''))
   = Inl IndexError"
  by (simp add: compare_eval match_fund_a calc_eval)

text \<open>
  Claim C2, amended. When both series were fetched and a scheme was matched, a filtered
  transaction dated after every point of the alternative series makes its unit
  recomputation raise IndexError, and \<^verbatim>\<open>compare_portfolios\<close> ends with that exception
  instead of a result; the row is given neither zero units nor any other default.
\<close>

theorem lookup_past_series_end_raises_IndexError:
  assumes "my_points \<noteq> []"
    and "fuzzy_match_scheme raw my_scheme_name (unique (map scheme transactions)) 70
           = Some matched_scheme"
    and "t \<in> set transactions" and "scheme t = matched_scheme"
    and "potential_points \<noteq> []"
    and "\<forall>q\<in>set potential_points. date q < transaction_date t"
  shows "potential_units ops (sort_key date potential_points) t = Inl IndexError
         \<and> compare_portfolios ops raw transactions
             (Some (my_points, my_scheme_name))
             (Some (potential_points, potential_scheme_name)) = Inl IndexError"
proof -
  let ?navs = "sort_key date potential_points"
  let ?input = "filter (\<lambda>t. scheme t = matched_scheme) transactions"
  have "asof_forward (transaction_date t) ?navs = None"
    using assms(6) by (simp add: asof_forward_None)
  then have row: "potential_units ops ?navs t = Inl IndexError"
    by (simp add: potential_units_asof)
  have mem: "t \<in> set ?input" using assms(3,4) by simp
  then have ne: "?input \<noteq> []" by (metis empty_iff empty_set)
  have "assign_units (potential_units ops ?navs) ?input = Inl IndexError"
    using mem row by (rule assign_units_raises)
  then have "compare_matched ops transactions matched_scheme
               (sort_key date my_points) my_scheme_name ?navs potential_scheme_name
             = Inl IndexError"
    using ne by (simp add: compare_matched_def Let_def split: prod.splits)
  with row show ?thesis
    by (simp add: compare_portfolios_fetched [OF assms(1) assms(5) assms(2)])
qed

theorem lookup_past_series_end_witness:
  "(let t = \<lparr> transaction_date = (2023::nat, 3::nat, 10::nat), scheme = ''Fund A'',
               units = Fin 10, gross_amount = Fin 1000 \<rparr>;
        potential_points = [\<lparr> date = (2023, 1, 9), nav = Fin 40 \<rparr>,
                            \<lparr> date = (2023, 2, 1), nav = Fin 50 \<rparr>]
    in fuzzy_match_scheme (\<lambda>_ _. 0) ''Fund A'' (unique (map scheme [t])) 70 = Some ''Fund A''
       \<and> (\<forall>q\<in>set potential_points. date q < transaction_date t)
       \<and> potential_units xops (sort_key date potential_points) t = Inl IndexError
       \<and> compare_portfolios xops (\<lambda>_ _. 0) [t]
            (Some ([\<lparr> date = (2023, 1, 9), nav = Fin 90 \<rparr>], ''Fund A''))
            (Some (potential_points, ''Fund B'')) = Inl IndexError)"
  using lookup_past_series_end_raises_IndexError
    [of "[\<lparr> date = (2023::nat, 1::nat, 9::nat), nav = Fin 90 \<rparr>]"
        "\<lambda>_ _. 0" "''Fund A''"
        "[\<lparr> transaction_date = (2023::nat, 3::nat, 10::nat), scheme = ''Fund A'',
            units = Fin 10, gross_amount = Fin 1000 \<rparr>]"
        "''Fund A''"
        "\<lparr> transaction_date = (2023::nat, 3::nat, 10::nat), scheme = ''Fund A'',
            units = Fin 10, gross_amount = Fin 1000 \<rparr>"
        "[\<lparr> date = (2023, 1, 9), nav = Fin 40 \<rparr>, \<lparr> date = (2023, 2, 1), nav = Fin 50 \<rparr>]"
        xops "''Fund B''"]
  by (simp add: match_fund_a)

text \<open>
  Claim C10 does not hold as stated. The alternative series below has strictly
  increasing dates and the transaction has a forward match, but the matched price is 0:
  the recomputed units are 1000 / 0 = inf, the original units are the same inf, and
  their difference is NaN, not 0.
\<close>

theorem zero_price_gives_NaN_units_difference:
  "compare_portfolios xops (\<lambda>_ _. 0)
     [\<lparr> transaction_date = (2023::nat, 1::nat, 10::nat), scheme = ''Fund A'',
        units = Fin 10, gross_amount = Fin 1000 \<rparr>]
     (Some ([\<lparr> date = (2023, 1, 9), nav = Fin 90 \<rparr>, \<lparr> date = (2023, 2, 1), nav = Fin 120 \<rparr>],
            ''Fund A''))
     (Some ([\<lparr> date = (2023, 1, 9), nav = Fin 40 \<rparr>, \<lparr> date = (2023, 2, 1), nav = Fin 0 \<rparr>,
             \<lparr> date = (2023, 3, 1), nav = Fin 50 \<rparr>],
            ''Fund B''))
   = Inr (Some
       (\<lparr> input_api = ''Fund A'', input_matched = ''Fund A'', potential_name = ''Fund B'',
          input_value = Fin 1200, potential_value = PInf, difference = PInf \<rparr>,
        [\<lparr> transaction_date = (2023, 1, 10), scheme = ''Fund A'',
           units = Fin 10, gross_amount = Fin 1000,
           matched_date = Some (2023, 2, 1), matched_nav = Fin 120,
           current_nav = Fin 120, current_value = Fin 1200,
           original_units = None, units_difference = None, value_difference = None \<rparr>],
        [\<lparr> transaction_date = (2023, 1, 10), scheme = ''Fund A'',
           units = PInf, gross_amount = Fin 1000,
           matched_date = Some (2023, 2, 1), matched_nav = Fin 0,
           current_nav = Fin 50, current_value = PInf,
           original_units = Some PInf, units_difference = Some NaN,
           value_difference = Some PInf \<rparr>]))"
  by (simp add: compare_eval match_fund_a calc_eval)

text \<open>
  Claim C10, amended. When both series were fetched, a scheme was matched, the
  alternative series has distinct dates and every filtered transaction has a forward
  match in it, \<^verbatim>\<open>compare_portfolios\<close> returns a result, with one counterfactual row per
  filtered transaction. In every such row the units are amount / matched price, the
  original units are the same value, and the units difference is that value minus
  itself: the units of the real holding do not occur in it. It is 0 whenever the value
  is a finite float (subtraction of a finite float from itself gives zero; the
  hypothesis on \<open>ops\<close> says so).
\<close>

theorem counterfactual_units_difference:
  assumes law: "\<forall>x. isfinite ops x \<longrightarrow> fsub ops x x = fzero ops"
    and my: "my_points \<noteq> []"
    and dist: "distinct (map date potential_points)"
    and match: "fuzzy_match_scheme raw my_scheme_name (unique (map scheme transactions)) 70
           = Some matched_scheme"
    and fwd: "\<forall>t\<in>set transactions. scheme t = matched_scheme \<longrightarrow>
                (\<exists>q\<in>set potential_points. transaction_date t \<le> date q)"
  shows "\<exists>comparison my_detailed_calc potential_detailed_calc.
           compare_portfolios ops raw transactions
             (Some (my_points, my_scheme_name))
             (Some (potential_points, potential_scheme_name))
             = Inr (Some (comparison, my_detailed_calc, potential_detailed_calc))
           \<and> length potential_detailed_calc
               = length (filter (\<lambda>t. scheme t = matched_scheme) transactions)
           \<and> (\<forall>r\<in>set potential_detailed_calc.
                 units r = fdiv ops (gross_amount r) (matched_nav r)
                 \<and> original_units r = Some (units r)
                 \<and> units_difference r = Some (fsub ops (units r) (units r))
                 \<and> (isfinite ops (units r) \<longrightarrow> units_difference r = Some (fzero ops)))"
proof -
  let ?navs = "sort_key date potential_points"
  let ?input = "filter (\<lambda>t. scheme t = matched_scheme) transactions"
  let ?new = "\<lambda>t. t \<lparr> units := fdiv ops (gross_amount t)
                         (nav (the (asof_forward (transaction_date t) ?navs))) \<rparr>"
  \<comment> \<open>the matched scheme is one of the ledger, so the filtered frame has a row\<close>
  from match obtain s where "extractOne raw my_scheme_name (unique (map scheme transactions))
      = Some (matched_scheme, s)"
    by (auto simp: fuzzy_match_scheme_def split: option.splits if_splits prod.splits)
  then have "matched_scheme \<in> set (unique (map scheme transactions))"
    by (rule extractOne_Some(1))
  then obtain t0 where t0: "t0 \<in> set transactions" "scheme t0 = matched_scheme" by auto
  then have "t0 \<in> set ?input" by simp
  then have ne: "?input \<noteq> []" by (metis empty_iff empty_set)
  from t0 fwd have pne: "potential_points \<noteq> []" by fastforce
  \<comment> \<open>every filtered row finds its price\<close>
  have found: "\<forall>t\<in>set ?input. \<exists>p. asof_forward (transaction_date t) ?navs = Some p"
  proof
    fix t assume "t \<in> set ?input"
    with fwd obtain q where "q \<in> set potential_points" "transaction_date t \<le> date q" by auto
    then have "asof_forward (transaction_date t) ?navs \<noteq> None"
      by (auto simp: asof_forward_None not_less)
    then show "\<exists>p. asof_forward (transaction_date t) ?navs = Some p" by auto
  qed
  have assigned: "assign_units (potential_units ops ?navs) ?input = Inr (map ?new ?input)"
    using found by (rule assign_units_ok)
  have tp_ne: "map ?new ?input \<noteq> []" using ne by simp
  have navs_ne: "?navs \<noteq> []" using pne by (simp add: sort_key_Nil_iff)
  obtain mv mrows where mine:
    "calculate_portfolio_value ops ?input (sort_key date my_points) False = (mv, mrows)"
    by (cases "calculate_portfolio_value ops ?input (sort_key date my_points) False")
  obtain pv prows where pot:
    "calculate_portfolio_value ops (map ?new ?input) ?navs True = (pv, prows)"
    by (cases "calculate_portfolio_value ops (map ?new ?input) ?navs True")
  have result: "compare_portfolios ops raw transactions
             (Some (my_points, my_scheme_name))
             (Some (potential_points, potential_scheme_name))
          = Inr (Some (\<lparr> input_api = my_scheme_name, input_matched = matched_scheme,
                          potential_name = potential_scheme_name, input_value = mv,
                          potential_value = pv, difference = fsub ops pv mv \<rparr>, mrows, prows))"
    using ne
    by (simp add: compare_portfolios_fetched [OF my pne match] compare_matched_def
          Let_def mine assigned pot)
  have prows: "prows = snd (calculate_portfolio_value ops (map ?new ?input) ?navs True)"
    by (simp add: pot)
  have len: "length prows = length ?input"
    using arg_cong [OF calc_rows_ledger [OF tp_ne navs_ne, of ops True], of length]
    by (simp add: prows)
  have rows: "units r = fdiv ops (gross_amount r) (matched_nav r)
                 \<and> original_units r = Some (units r)
                 \<and> units_difference r = Some (fsub ops (units r) (units r))
                 \<and> (isfinite ops (units r) \<longrightarrow> units_difference r = Some (fzero ops))"
    if "r \<in> set prows" for r
  proof -
    from that obtain t' where t': "t' \<in> set (map ?new ?input)"
      and r: "r = potential_columns ops
           (value_row ops (nav (last ?navs)) (join_row ops (sort_key date ?navs) t'))"
      unfolding prows by (rule calc_row_cases) simp
    from t' obtain t where t: "t \<in> set ?input" "t' = ?new t" by auto
    from found t(1) obtain p where p: "asof_forward (transaction_date t) ?navs = Some p" by auto
    have again: "sort_key date ?navs = ?navs"
      by (rule sort_key_id_if_sorted) simp
    have u: "units r = fdiv ops (gross_amount t) (nav p)"
      by (simp add: r row_fields join_row_fields t(2) p)
    have g: "gross_amount r = gross_amount t"
      by (simp add: r row_fields join_row_fields t(2))
    have n: "matched_nav r = nav p"
      by (simp add: r row_fields join_row_fields again t(2) p)
    have ou: "original_units r = Some (fdiv ops (gross_amount r) (matched_nav r))"
      and ud: "units_difference r
                 = Some (fsub ops (units r) (fdiv ops (gross_amount r) (matched_nav r)))"
      by (simp_all add: r potential_columns_def Let_def)
    from u g n ou ud law show ?thesis by simp
  qed
  from result len rows show ?thesis by blast
qed

theorem counterfactual_units_difference_witness:
  "(let transactions =
          [\<lparr> transaction_date = (2023::nat, 1::nat, 10::nat), scheme = ''Fund A'',
             units = Fin 10, gross_amount = Fin 1000 \<rparr>];
        potential_points = [\<lparr> date = (2023, 1, 9), nav = Fin 40 \<rparr>,
                            \<lparr> date = (2023, 2, 1), nav = Fin 50 \<rparr>]
    in (\<forall>x. isfinite xops x \<longrightarrow> fsub xops x x = fzero xops)
       \<and> distinct (map date potential_points)
       \<and> fuzzy_match_scheme (\<lambda>_ _. 0) ''Fund A'' (unique (map scheme transactions)) 70
            = Some ''Fund A''
       \<and> (\<forall>t\<in>set transactions. scheme t = ''Fund A'' \<longrightarrow>
              (\<exists>q\<in>set potential_points. transaction_date t \<le> date q))
       \<and> (\<exists>comparison my_detailed_calc potential_detailed_calc.
             compare_portfolios xops (\<lambda>_ _. 0) transactions
               (Some ([\<lparr> date = (2023, 1, 9), nav = Fin 90 \<rparr>], ''Fund A''))
               (Some (potential_points, ''Fund B''))
               = Inr (Some (comparison, my_detailed_calc, potential_detailed_calc))
             \<and> length potential_detailed_calc = 1
             \<and> (\<forall>r\<in>set potential_detailed_calc.
                   units r = fdiv xops (gross_amount r) (matched_nav r)
                   \<and> original_units r = Some (units r)
                   \<and> units_difference r = Some (fsub xops (units r) (units r))
                   \<and> (isfinite xops (units r) \<longrightarrow> units_difference r = Some (fzero xops)))))"
proof -
  have law: "\<forall>x. isfinite xops x \<longrightarrow> fsub xops x x = fzero xops"
    by (auto simp: xops_def xsub_def split: xnum.splits)
  have my: "[\<lparr> date = (2023::nat, 1::nat, 9::nat), nav = Fin 90 \<rparr>] \<noteq> []" by simp
  have dist: "distinct (map date [\<lparr> date = (2023::nat, 1::nat, 9::nat), nav = Fin 40 \<rparr>,
                            \<lparr> date = (2023, 2, 1), nav = Fin 50 \<rparr>])" by simp
  have match: "fuzzy_match_scheme (\<lambda>_ _. 0) ''Fund A''
       (unique (map scheme [\<lparr> transaction_date = (2023::nat, 1::nat, 10::nat), scheme = ''Fund A'',
             units = Fin 10, gross_amount = Fin 1000 \<rparr>])) 70 = Some ''Fund A''"
    by (simp add: match_fund_a)
  have fwd: "\<forall>t\<in>set [\<lparr> transaction_date = (2023::nat, 1::nat, 10::nat), scheme = ''Fund A'',
             units = Fin 10, gross_amount = Fin 1000 \<rparr>]. scheme t = ''Fund A'' \<longrightarrow>
              (\<exists>q\<in>set [\<lparr> date = (2023, 1, 9), nav = Fin 40 \<rparr>,
                            \<lparr> date = (2023, 2, 1), nav = Fin 50 \<rparr>]. transaction_date t \<le> date q)"
    by simp
  show ?thesis
    using counterfactual_units_difference [OF law my dist match fwd, of "''Fund B''"]
      law dist match fwd
    by (simp add: Let_def)
qed

text \<open>
  Claim C8. Two calls in a row, with the same ledger frame and the same two HTTP
  exchanges, return the same value: the first call writes only to frames it has made
  itself, so the second call reads the ledger it was given unchanged, and the result
  is a function of that ledger and the two exchanges.
\<close>

theorem second_run_returns_the_same_result:
  assumes "transactions < length st"
  shows "let (result, st') =
               compare_portfolios_store ops raw st transactions
                 my_stock_api potential_stock_api;
             (result', st'') =
               compare_portfolios_store ops raw st' transactions
                 my_stock_api potential_stock_api
         in result' = result
            \<and> st' ! transactions = st ! transactions
            \<and> st'' ! transactions = st ! transactions
            \<and> result = compare_portfolios ops raw (st ! transactions)
                         my_stock_api potential_stock_api"
proof -
  from compare_store_result [OF assms] obtain ext where
    first: "compare_portfolios_store ops raw st transactions my_stock_api potential_stock_api
            = (compare_portfolios ops raw (st ! transactions) my_stock_api potential_stock_api,
               st @ ext)"
    by blast
  have valid: "transactions < length (st @ ext)" using assms by simp
  have same: "(st @ ext) ! transactions = st ! transactions"
    using assms by (simp add: nth_append)
  from compare_store_result [OF valid] obtain ext' where
    second: "compare_portfolios_store ops raw (st @ ext) transactions
               my_stock_api potential_stock_api
            = (compare_portfolios ops raw ((st @ ext) ! transactions)
                 my_stock_api potential_stock_api,
               (st @ ext) @ ext')"
    by blast
  have same': "((st @ ext) @ ext') ! transactions = st ! transactions"
    using assms by (simp add: nth_append)
  show ?thesis
    by (simp only: first second same same' Let_def split)
qed

theorem second_run_witness:
  "(let st = [[\<lparr> transaction_date = (2023::nat, 1::nat, 10::nat), scheme = ''Fund A'',
                 units = Fin 10, gross_amount = Fin 1000 \<rparr>]];
        my_stock_api = Some ([\<lparr> date = (2023, 1, 9), nav = Fin 90 \<rparr>,
                              \<lparr> date = (2023, 2, 1), nav = Fin 120 \<rparr>], ''Fund A'');
        potential_stock_api = Some ([\<lparr> date = (2023, 1, 9), nav = Fin 40 \<rparr>,
                                     \<lparr> date = (2023, 2, 1), nav = Fin 50 \<rparr>], ''Fund B'');
        (result, st') = compare_portfolios_store xops (\<lambda>_ _. 0) st 0
                          my_stock_api potential_stock_api;
        (result', st'') = compare_portfolios_store xops (\<lambda>_ _. 0) st' 0
                          my_stock_api potential_stock_api
    in 0 < length st \<and> result' = result \<and> st' ! 0 = st ! 0
       \<and> length st' = 3 \<and> units (hd (st' ! 2)) = Fin 20
       \<and> map input_value (map fst (case result of Inr (Some c) \<Rightarrow> [c] | _ \<Rightarrow> [])) = [Fin 1200])"
proof -
  have first: "compare_portfolios_store xops (\<lambda>_ _. 0)
          [[\<lparr> transaction_date = (2023::nat, 1::nat, 10::nat), scheme = ''Fund A'',
                 units = Fin 10, gross_amount = Fin 1000 \<rparr>]] 0
          (Some ([\<lparr> date = (2023, 1, 9), nav = Fin 90 \<rparr>,
                              \<lparr> date = (2023, 2, 1), nav = Fin 120 \<rparr>], ''Fund A''))
          (Some ([\<lparr> date = (2023, 1, 9), nav = Fin 40 \<rparr>,
                                     \<lparr> date = (2023, 2, 1), nav = Fin 50 \<rparr>], ''Fund B''))
       = (Inr (Some
           (\<lparr> input_api = ''Fund A'', input_matched = ''Fund A'', potential_name = ''Fund B'',
              input_value = Fin 1200, potential_value = Fin 1000, difference = Fin (- 200) \<rparr>,
            [\<lparr> transaction_date = (2023, 1, 10), scheme = ''Fund A'',
               units = Fin 10, gross_amount = Fin 1000,
               matched_date = Some (2023, 2, 1), matched_nav = Fin 120,
               current_nav = Fin 120, current_value = Fin 1200,
               original_units = None, units_difference = None, value_difference = None \<rparr>],
            [\<lparr> transaction_date = (2023, 1, 10), scheme = ''Fund A'',
               units = Fin 20, gross_amount = Fin 1000,
               matched_date = Some (2023, 2, 1), matched_nav = Fin 50,
               current_nav = Fin 50, current_value = Fin 1000,
               original_units = Some (Fin 20), units_difference = Some (Fin 0),
               value_difference = Some (Fin 0) \<rparr>])),
          [[\<lparr> transaction_date = (2023, 1, 10), scheme = ''Fund A'',
              units = Fin 10, gross_amount = Fin 1000 \<rparr>],
           [\<lparr> transaction_date = (2023, 1, 10), scheme = ''Fund A'',
              units = Fin 10, gross_amount = Fin 1000 \<rparr>],
           [\<lparr> transaction_date = (2023, 1, 10), scheme = ''Fund A'',
              units = Fin 20, gross_amount = Fin 1000 \<rparr>]])"
    by (simp add: compare_portfolios_store_def new_frame_def fetch_nav_data_def
          potential_units_def match_fund_a calc_eval)
  show ?thesis
    using second_run_returns_the_same_result
      [of 0 "[[\<lparr> transaction_date = (2023::nat, 1::nat, 10::nat), scheme = ''Fund A'',
                 units = Fin 10, gross_amount = Fin 1000 \<rparr>]]"
          xops "\<lambda>_ _. 0"
          "Some ([\<lparr> date = (2023, 1, 9), nav = Fin 90 \<rparr>,
                              \<lparr> date = (2023, 2, 1), nav = Fin 120 \<rparr>], ''Fund A'')"
          "Some ([\<lparr> date = (2023, 1, 9), nav = Fin 40 \<rparr>,
                                     \<lparr> date = (2023, 2, 1), nav = Fin 50 \<rparr>], ''Fund B'')"]
    by (simp add: first Let_def split: prod.splits del: One_nat_def)
qed

end
